theory Spec2Isabelle
  imports Main "HOL-Library.AList" "HOL-Library.List_Lexorder" "HOL-Library.Char_ord"
begin

section \<open>JavaScript values\<close>

text \<open>
  The data layer of uMap (the \<^verbatim>\<open>DataLayer\<close> class, second half of
  \<^verbatim>\<open>src/umap/static/umap/js/modules/permissions.js\<close>) works on JSON documents:
  GeoJSON payloads, option bags, feature properties. A JSON value is a \<open>json\<close>;
  a JavaScript object is an association list of its own enumerable members;
  \<^verbatim>\<open>undefined\<close> is \<open>None\<close> of \<open>json option\<close>. Numbers only matter
  through their type and truthiness, so an integer stands for them.
\<close>

datatype json =
  JNull
  | JBool bool
  | JNum int
  | JStr string
  | JArr "json list"
  | JObj "(string \<times> json) list"

type_synonym jsobject = "(string \<times> json) list"

text \<open>
  Errors are values. \<open>TypeError\<close> is what JavaScript throws when a member of
  \<^verbatim>\<open>null\<close> or \<^verbatim>\<open>undefined\<close> is read or written, or when a method that
  does not exist is called. \<open>IndexError\<close> is the error the specification names for a
  lookup by position; no statement of the source throws it.
\<close>

datatype js_error = TypeError | IndexError

datatype 'a completion = Return 'a | Throw js_error

datatype js_type = Tobject | Tboolean | Tnumber | Tstring | Tundefined

text \<open>\<^verbatim>\<open>typeof v\<close>: \<^verbatim>\<open>null\<close>, arrays and objects are all \<^verbatim>\<open>'object'\<close>.\<close>

fun typeof :: "json option \<Rightarrow> js_type" where
  "typeof None = Tundefined"
| "typeof (Some JNull) = Tobject"
| "typeof (Some (JBool b)) = Tboolean"
| "typeof (Some (JNum n)) = Tnumber"
| "typeof (Some (JStr s)) = Tstring"
| "typeof (Some (JArr xs)) = Tobject"
| "typeof (Some (JObj kvs)) = Tobject"

text \<open>\<^verbatim>\<open>Boolean(v)\<close>, the truthiness that \<^verbatim>\<open>if\<close>, \<^verbatim>\<open>!\<close>, \<^verbatim>\<open>&&\<close> and \<^verbatim>\<open>||\<close> test.\<close>

fun truthy :: "json option \<Rightarrow> bool" where
  "truthy None = False"
| "truthy (Some JNull) = False"
| "truthy (Some (JBool b)) = b"
| "truthy (Some (JNum n)) = (n \<noteq> 0)"
| "truthy (Some (JStr s)) = (s \<noteq> [])"
| "truthy (Some (JArr xs)) = True"
| "truthy (Some (JObj kvs)) = True"

text \<open>
  \<^verbatim>\<open>v.k\<close> for a value \<open>v\<close> that is not \<^verbatim>\<open>null\<close>: the member of an object,
  \<^verbatim>\<open>undefined\<close> on an array or a primitive (none of the names the source reads is a
  member of those).
\<close>

fun member_of :: "json \<Rightarrow> string \<Rightarrow> json option" where
  "member_of (JObj kvs) k = map_of kvs k"
| "member_of v k = None"

text \<open>\<^verbatim>\<open>v?.k\<close>: \<^verbatim>\<open>undefined\<close> when \<open>v\<close> is \<^verbatim>\<open>null\<close> or \<^verbatim>\<open>undefined\<close>.\<close>

fun opt_member :: "json option \<Rightarrow> string \<Rightarrow> json option" where
  "opt_member None k = None"
| "opt_member (Some v) k = member_of v k"

text \<open>\<^verbatim>\<open>Object.assign(target, source)\<close>: every member of the source is stored into the
  target, a member already there keeping its place.\<close>

definition assign :: "jsobject \<Rightarrow> jsobject \<Rightarrow> jsobject" where
  "assign target source = fold (\<lambda>(k, v). AList.update k v) source target"

text \<open>\<^verbatim>\<open>xs.indexOf(x)\<close>: the first position of \<open>x\<close>, or \<open>-1\<close>.\<close>

fun indexOf :: "'a list \<Rightarrow> 'a \<Rightarrow> int" where
  "indexOf [] x = - 1"
| "indexOf (y # ys) x =
     (if y = x then 0
      else (let i = indexOf ys x in if i = - 1 then - 1 else i + 1))"

text \<open>
  \<^verbatim>\<open>xs.splice(start, 1)\<close>: removes one element at \<open>start\<close>. A negative \<open>start\<close>
  counts from the end of the array (\<open>-1\<close> is its last element); a start beyond the
  array removes nothing.
\<close>

definition splice1 :: "int \<Rightarrow> 'a list \<Rightarrow> 'a list" where
  "splice1 start xs =
     (let n = int (length xs);
          s = (if start < 0 then max (n + start) 0 else min start n)
      in take (nat s) xs @ drop (Suc (nat s)) xs)"

section \<open>Features, requests and the owning map\<close>

text \<open>
  Modelled from the spec: the feature classes \<^verbatim>\<open>Point\<close>, \<^verbatim>\<open>LineString\<close> and
  \<^verbatim>\<open>Polygon\<close> live in \<^verbatim>\<open>features.js\<close>, which is not in the source tree. The
  specification gives a feature an identity, a geometry variant and a mapping of property
  values; here it is what the data layer reads of it: the number Leaflet's
  \<^verbatim>\<open>stamp\<close> gives the object, the class that built it, the geometry it was built
  from and its \<^verbatim>\<open>properties\<close> object.
\<close>

datatype feature_class = Point | LineString | Polygon

record feature =
  leaflet_id :: nat
  f_class :: feature_class
  f_geometry :: json
  properties :: jsobject

definition stamp :: "feature \<Rightarrow> nat" where
  "stamp f = leaflet_id f"

text \<open>
  URLs are kept symbolic: the route and its parameters, as \<^verbatim>\<open>this._umap.urls.get\<close>
  receives them; \<^verbatim>\<open>RenderUrl\<close> and \<^verbatim>\<open>ProxyUrl\<close> are the two rewritings of a
  remote address (\<^verbatim>\<open>renderUrl\<close>, \<^verbatim>\<open>proxyUrl\<close> with its time to live).
\<close>

datatype url =
  Datalayer_view "json option"
  | Datalayer_save "json option" bool
  | Datalayer_delete "json option"
  | RenderUrl "json option"
  | ProxyUrl url "json option"

text \<open>The multipart body of a save, field by field.\<close>

record formData =
  fd_name :: "json option"
  fd_display_on_load :: bool
  fd_rank :: int
  fd_settings :: jsobject
  fd_geojson :: json

text \<open>
  A request as it leaves the client: \<^verbatim>\<open>this._umap.server.get\<close>,
  \<^verbatim>\<open>this._umap.server.post\<close> with its headers and body (no body when the call
  passes none), and \<^verbatim>\<open>this._umap.request.get\<close>.
\<close>

datatype request =
  ServerGet url
  | ServerPost url "(string \<times> string) list" "formData option"
  | RequestGet url

text \<open>
  What the transport gives back: \<^verbatim>\<open>[data, response, error]\<close> from the server
  calls, the response carrying its status and its \<^verbatim>\<open>X-Datalayer-Version\<close> header
  (\<open>None\<close> when the header is absent); and the plain response of
  \<^verbatim>\<open>request.get\<close>.
\<close>

record http_response =
  h_status :: nat
  h_version :: "string option"

record reply =
  r_data :: json
  r_response :: "http_response option"
  r_error :: bool

record remote_response =
  rr_ok :: bool
  rr_text :: string

text \<open>
  The closure that \<^verbatim>\<open>_trySave\<close> hands to the conflict alert: the variables the
  callback captured.
\<close>

record retry =
  rt_url :: url
  rt_formData :: formData

text \<open>
  The owner, \<^verbatim>\<open>this._umap\<close>, as far as the data layer touches it: the dictionary
  \<^verbatim>\<open>datalayers\<close> (its keys, the stamps of the layers), the ordered
  \<^verbatim>\<open>datalayersIndex\<close> (layers by stamp), Leaflet's stamp counter, the log of the
  requests sent, the conflict alerts raised, the number of calls of \<^verbatim>\<open>saveAll\<close>,
  and the collaborators that are not part of the data layer: \<^verbatim>\<open>Utils.sortFeatures\<close>
  with the map's sort key, on raw GeoJSON elements and on feature objects, and
  \<^verbatim>\<open>formatter.parse\<close>, whose promise either resolves with a document or rejects
  (\<open>None\<close>).
\<close>

record umap =
  datalayers :: "nat set"
  datalayersIndex :: "nat list"
  lastId :: nat
  requests :: "request list"
  conflicts :: "retry list"
  saveAll_calls :: nat
  sortFeatures_json :: "json list \<Rightarrow> json list"
  sortFeatures_obj :: "feature list \<Rightarrow> feature list"
  formatter_parse :: "string \<Rightarrow> json option \<Rightarrow> json option"

text \<open>
  The data layer. A field \<open>m_x\<close> is the member \<^verbatim>\<open>this._x\<close> of the source.
  \<open>m_features\<close> is the object \<^verbatim>\<open>_features\<close>, keyed by stamp. \<open>m_isDirty\<close> is
  the dirty flag that the base class \<^verbatim>\<open>ServerStored\<close> keeps. \<open>layer\<close> is the type
  name of the rendering layer \<^verbatim>\<open>this.layer\<close> (\<open>None\<close> before the first
  \<^verbatim>\<open>resetLayer\<close>) and \<open>onMap\<close> is \<^verbatim>\<open>this._leafletMap.hasLayer(this.layer)\<close>.
\<close>

record datalayer =
  umap :: umap
  layer_id :: nat
  m_index :: "nat list"
  m_features :: "(nat \<times> feature) list"
  m_geojson :: "json option"
  m_geojson_bk :: "json option"
  m_propertiesIndex :: "string list"
  m_loaded :: bool
  m_dataloaded :: bool
  m_loading :: bool
  m_isDeleted :: bool
  m_isDirty :: bool
  m_referenceVersion :: "string option"
  options :: jsobject
  m_backupOptions :: jsobject
  layer :: "string option"
  onMap :: bool

section \<open>The feature index\<close>

text \<open>
  \<^verbatim>\<open>getFeatureByIndex(index)\<close>. \<^verbatim>\<open>this._index[index]\<close> is \<^verbatim>\<open>undefined\<close>
  for an index outside the array, and \<^verbatim>\<open>this._features[undefined]\<close> is
  \<^verbatim>\<open>undefined\<close> too: the function returns on every path.
\<close>

definition getFeatureByIndex :: "datalayer \<Rightarrow> int \<Rightarrow> feature option completion" where
  "getFeatureByIndex L index =
     (let index = (if index = - 1 then int (length (m_index L)) - 1 else index);
          id = (if 0 \<le> index \<and> index < int (length (m_index L))
                then Some (m_index L ! nat index) else None)
      in Return (case id of None \<Rightarrow> None | Some i \<Rightarrow> map_of (m_features L) i))"


text \<open>
  \<^verbatim>\<open>indexProperty(name)\<close>: an empty name and a name that starts with an underscore
  are left out; a new name is pushed and the array sorted (the default
  \<^verbatim>\<open>Array.prototype.sort\<close>, the order of strings by their code units).
\<close>

definition indexProperty :: "string \<Rightarrow> datalayer \<Rightarrow> datalayer" where
  "indexProperty name L =
     (if name = [] then L
      else if indexOf name (CHR ''_'') = 0 then L
      else if name \<notin> set (m_propertiesIndex L)
      then L\<lparr>m_propertiesIndex := sort (m_propertiesIndex L @ [name])\<rparr>
      else L)"

text \<open>
  \<^verbatim>\<open>indexProperties(feature)\<close>: the \<^verbatim>\<open>for ... in\<close> loop over the names of
  \<^verbatim>\<open>feature.properties\<close>, each value read back through its name.
\<close>

definition indexProperties :: "feature \<Rightarrow> datalayer \<Rightarrow> datalayer" where
  "indexProperties feature L =
     fold (\<lambda>i L'. if typeof (map_of (properties feature) i) \<noteq> Tobject
                    then indexProperty i L' else L')
       (map fst (properties feature)) L"

text \<open>\<^verbatim>\<open>deindexProperty(name)\<close>, which guards the position it splices at.\<close>

definition deindexProperty :: "string \<Rightarrow> datalayer \<Rightarrow> datalayer" where
  "deindexProperty name L =
     (let idx = indexOf (m_propertiesIndex L) name
      in if idx \<noteq> - 1 then L\<lparr>m_propertiesIndex := splice1 idx (m_propertiesIndex L)\<rparr>
         else L)"

text \<open>
  \<^verbatim>\<open>addFeature(feature)\<close>. The calls that only reach the feature itself, the map-wide
  slug index or the rendering (\<^verbatim>\<open>connectToDataLayer\<close>, \<^verbatim>\<open>featuresIndex\<close>,
  \<^verbatim>\<open>showFeature\<close>, \<^verbatim>\<open>dataChanged\<close>) change nothing of the state kept here.
\<close>

definition addFeature :: "feature \<Rightarrow> datalayer \<Rightarrow> datalayer" where
  "addFeature feature L =
     (let id = stamp feature;
          L1 = L\<lparr>m_index := m_index L @ [id]\<rparr>;
          L2 = L1\<lparr>m_features := AList.update id feature (m_features L1)\<rparr>
      in indexProperties feature L2)"

text \<open>\<^verbatim>\<open>removeFeature(feature, sync)\<close>: the position of the stamp goes to
  \<^verbatim>\<open>splice\<close> as \<^verbatim>\<open>indexOf\<close> returned it.\<close>

definition removeFeature :: "feature \<Rightarrow> datalayer \<Rightarrow> datalayer" where
  "removeFeature feature L =
     (let id = stamp feature;
          L1 = L\<lparr>m_index := splice1 (indexOf (m_index L) id) (m_index L)\<rparr>
      in L1\<lparr>m_features := AList.delete id (m_features L1)\<rparr>)"

text \<open>\<^verbatim>\<open>Object.values\<close> of an object keyed by integers: by ascending key.\<close>

definition object_values :: "(nat \<times> 'a) list \<Rightarrow> 'a list" where
  "object_values kvs = map snd (sort_key fst kvs)"

definition reindex :: "datalayer \<Rightarrow> datalayer" where
  "reindex L =
     (let features = sortFeatures_obj (umap L) (object_values (m_features L))
      in L\<lparr>m_index := map stamp features\<rparr>)"

definition backupData :: "datalayer \<Rightarrow> datalayer" where
  "backupData L = L\<lparr>m_geojson_bk := m_geojson L\<rparr>"

definition clear :: "datalayer \<Rightarrow> datalayer" where
  "clear L =
     (let L1 = L\<lparr>m_features := []\<rparr>;
          L2 = L1\<lparr>m_index := []\<rparr>
      in if truthy (m_geojson L2) then (backupData L2)\<lparr>m_geojson := None\<rparr> else L2)"


section \<open>State predicates and small steps\<close>

text \<open>\<^verbatim>\<open>this.defaultOptions\<close>, as the constructor sets it.\<close>

definition DEFAULT_OPTIONS :: jsobject where
  "DEFAULT_OPTIONS = [(''displayOnLoad'', JBool True), (''inCaption'', JBool True),
     (''browsable'', JBool True), (''editMode'', JStr ''advanced'')]"

definition createdOnServer :: "datalayer \<Rightarrow> bool" where
  "createdOnServer L = (case m_referenceVersion L of None \<Rightarrow> False | Some v \<Rightarrow> v \<noteq> [])"

definition isLoaded :: "datalayer \<Rightarrow> bool" where
  "isLoaded L = (\<not> createdOnServer L \<or> m_loaded L)"

definition hasDataLoaded :: "datalayer \<Rightarrow> bool" where
  "hasDataLoaded L = m_dataloaded L"

definition isVisible :: "datalayer \<Rightarrow> bool" where
  "isVisible L = (layer L \<noteq> None \<and> onMap L)"

definition remoteData :: "datalayer \<Rightarrow> json option" where
  "remoteData L = map_of (options L) ''remoteData''"

text \<open>\<^verbatim>\<open>Boolean(this.options.remoteData?.url && this.options.remoteData.format)\<close>: the
  second read happens only once the first has shown \<^verbatim>\<open>remoteData\<close> to be there.\<close>

definition isRemoteLayer :: "datalayer \<Rightarrow> bool" where
  "isRemoteLayer L =
     (truthy (opt_member (remoteData L) ''url'') \<and> truthy (opt_member (remoteData L) ''format''))"

definition hasDynamicData :: "datalayer \<Rightarrow> bool" where
  "hasDynamicData L = (isRemoteLayer L \<and> truthy (opt_member (remoteData L) ''dynamic''))"

definition getRank :: "datalayer \<Rightarrow> int" where
  "getRank L = indexOf (datalayersIndex (umap L)) (layer_id L)"

text \<open>\<^verbatim>\<open>_dataUrl()\<close>; the cache-busting time stamp added for editors is not part of
  the route.\<close>

definition p_dataUrl :: "datalayer \<Rightarrow> url" where
  "p_dataUrl L = Datalayer_view (map_of (options L) ''id'')"

definition getDeleteUrl :: "datalayer \<Rightarrow> url" where
  "getDeleteUrl L = Datalayer_delete (map_of (options L) ''id'')"

text \<open>Sending a request: it is appended to the log of the owner.\<close>

definition send :: "request \<Rightarrow> datalayer \<Rightarrow> datalayer" where
  "send rq L = L\<lparr>umap := (umap L)\<lparr>requests := requests (umap L) @ [rq]\<rparr>\<rparr>"

text \<open>\<^verbatim>\<open>setReferenceVersion({ response, sync })\<close>; the update sent to the sync engine
  is outside the layer.\<close>

definition setReferenceVersion :: "http_response \<Rightarrow> datalayer \<Rightarrow> datalayer" where
  "setReferenceVersion response L = L\<lparr>m_referenceVersion := h_version response\<rparr>"

definition backupOptions :: "datalayer \<Rightarrow> datalayer" where
  "backupOptions L = L\<lparr>m_backupOptions := options L\<rparr>"

definition onDataLoaded :: "datalayer \<Rightarrow> datalayer" where
  "onDataLoaded L = L\<lparr>m_dataloaded := True\<rparr>"

definition connectToMap :: "datalayer \<Rightarrow> datalayer" where
  "connectToMap L =
     (let id = layer_id L;
          L1 = (if id \<notin> datalayers (umap L)
                then L\<lparr>umap := (umap L)\<lparr>datalayers := insert id (datalayers (umap L))\<rparr>\<rparr>
                else L)
      in if id \<notin> set (datalayersIndex (umap L1))
         then L1\<lparr>umap := (umap L1)\<lparr>datalayersIndex := datalayersIndex (umap L1) @ [id]\<rparr>\<rparr>
         else L1)"

section \<open>Loading\<close>

text \<open>
  \<^verbatim>\<open>fetchData\<close> is asynchronous. Up to its \<^verbatim>\<open>await\<close> it runs at once: the two
  guards, the flag \<^verbatim>\<open>_loading\<close> and the request. A caller that does not await it
  (\<^verbatim>\<open>onDirty\<close>, and \<^verbatim>\<open>show\<close> when \<^verbatim>\<open>resetLayer\<close>, \<^verbatim>\<open>redraw\<close> or
  \<^verbatim>\<open>toggle\<close> call it) runs exactly this part; the model follows such a call up to
  this suspension.
\<close>

definition fetchData_start :: "datalayer \<Rightarrow> datalayer" where
  "fetchData_start L =
     (if \<not> createdOnServer L then L
      else if m_loading L then L
      else send (ServerGet (p_dataUrl L)) (L\<lparr>m_loading := True\<rparr>))"

text \<open>\<^verbatim>\<open>show()\<close> up to its first suspension, and \<^verbatim>\<open>hide()\<close>.\<close>

definition show_start :: "datalayer \<Rightarrow> datalayer" where
  "show_start L =
     (let L1 = L\<lparr>onMap := True\<rparr>
      in if \<not> isLoaded L1 then fetchData_start L1 else L1)"

definition hide :: "datalayer \<Rightarrow> datalayer" where
  "hide L = L\<lparr>onMap := False\<rparr>"

definition redraw :: "datalayer \<Rightarrow> datalayer" where
  "redraw L = (if \<not> isVisible L then L else show_start (hide L))"

text \<open>
  Modelled from the spec: the rendering classes (\<^verbatim>\<open>rendering/layers/*.js\<close>) are not in
  the source tree. \<^verbatim>\<open>LAYER_MAP\<close> files each class of \<^verbatim>\<open>LAYER_TYPES\<close> under its
  \<^verbatim>\<open>TYPE\<close>; the type names are taken to be the names under which the module imports
  the classes, \<open>Default\<close> being the class used when the option names no known type.
\<close>

definition LAYER_TYPES :: "string list" where
  "LAYER_TYPES = [''Default'', ''Cluster'', ''Heat'', ''Choropleth'', ''Categorized'', ''Circles'']"

text \<open>\<^verbatim>\<open>resetLayer(force)\<close>. A new rendering layer is not on the map until \<^verbatim>\<open>show\<close>
  adds it.\<close>

definition resetLayer :: "bool \<Rightarrow> datalayer \<Rightarrow> datalayer" where
  "resetLayer force L =
     (let type = map_of (options L) ''type''
      in if layer L \<noteq> None
            \<and> (\<not> truthy type \<or> (case layer L of None \<Rightarrow> False | Some t \<Rightarrow> type = Some (JStr t)))
            \<and> \<not> force
         then L
         else
           (let visible = isVisible L;
                Class = (case type of
                           Some (JStr t) \<Rightarrow> if t \<in> set LAYER_TYPES then t else ''Default''
                         | _ \<Rightarrow> ''Default'');
                L1 = L\<lparr>layer := Some Class, onMap := False\<rparr>
            in if visible then show_start L1 else L1))"

definition updateOptions :: "jsobject \<Rightarrow> datalayer \<Rightarrow> datalayer" where
  "updateOptions opts L = resetLayer False (L\<lparr>options := assign (options L) opts\<rparr>)"

definition setOptions :: "jsobject \<Rightarrow> datalayer \<Rightarrow> datalayer" where
  "setOptions opts L =
     updateOptions (AList.delete ''geojson'' opts) (L\<lparr>options := DEFAULT_OPTIONS\<rparr>)"

text \<open>
  \<^verbatim>\<open>makeFeature(geojson, sync, id)\<close>. The geometry type selects the class; a type
  that is not known is skipped with an alert, which is no failure. The constructor
  gives the feature the properties of its GeoJSON element (\<open>properties_of\<close>), and
  \<^verbatim>\<open>stamp\<close> the next number of Leaflet's counter. Reading a member of
  \<^verbatim>\<open>null\<close> throws. The argument \<^verbatim>\<open>sync\<close> only decides whether the sync engine
  is told, which is outside the layer.
\<close>

definition feature_class_of :: "json \<Rightarrow> feature_class option" where
  "feature_class_of geometry =
     (case member_of geometry ''type'' of
        Some (JStr t) \<Rightarrow>
          if t = ''Point'' then Some Point
          else if t = ''MultiLineString'' \<or> t = ''LineString'' then Some LineString
          else if t = ''MultiPolygon'' \<or> t = ''Polygon'' then Some Polygon
          else None
      | _ \<Rightarrow> None)"

text \<open>Modelled from the spec: the constructors of the feature classes are in
  \<^verbatim>\<open>features.js\<close>, not in the source tree. A feature carries the property mapping of
  the element it is built from.\<close>

definition properties_of :: "json \<Rightarrow> jsobject" where
  "properties_of geojson =
     (case member_of geojson ''properties'' of Some (JObj kvs) \<Rightarrow> kvs | _ \<Rightarrow> [])"

text \<open>\<^verbatim>\<open>geojson.geometry || geojson\<close>: both a feature and a bare geometry are
  accepted.\<close>

definition geometry_of :: "json \<Rightarrow> json" where
  "geometry_of geojson =
     (case member_of geojson ''geometry'' of
        Some g \<Rightarrow> if truthy (Some g) then g else geojson
      | None \<Rightarrow> geojson)"

definition makeFeature :: "json \<Rightarrow> datalayer \<Rightarrow> js_error option \<times> datalayer" where
  "makeFeature geojson L =
     (if geojson = JNull then (Some TypeError, L)
      else
        (let geometry = geometry_of geojson
         in case feature_class_of geometry of
              None \<Rightarrow> (None, L)
            | Some c \<Rightarrow>
                (let id = Suc (lastId (umap L));
                     feature = \<lparr>leaflet_id = id, f_class = c, f_geometry = geometry,
                                properties = properties_of geojson\<rparr>;
                     L1 = L\<lparr>umap := (umap L)\<lparr>lastId := id\<rparr>\<rparr>
                 in (None, addFeature feature L1))))"

text \<open>The loop of \<^verbatim>\<open>makeFeatures\<close>: it stops at the first element that throws, and
  what was added before stays.\<close>

fun makeFeature_loop :: "json list \<Rightarrow> datalayer \<Rightarrow> js_error option \<times> datalayer" where
  "makeFeature_loop [] L = (None, L)"
| "makeFeature_loop (feature # collection) L =
     (case makeFeature feature L of
        (Some e, L1) \<Rightarrow> (Some e, L1)
      | (None, L1) \<Rightarrow> makeFeature_loop collection L1)"

text \<open>
  \<^verbatim>\<open>makeFeatures(geojson, sync)\<close>. \<^verbatim>\<open>Utils.sortFeatures\<close> sorts an array in
  place, so a collection that is no array throws there.
\<close>

definition makeFeatures :: "json \<Rightarrow> datalayer \<Rightarrow> js_error option \<times> datalayer" where
  "makeFeatures geojson L =
     (if geojson = JNull then (Some TypeError, L)
      else
        (let geojson1 = (if member_of geojson ''type'' = Some (JStr ''Feature'')
                            \<or> truthy (member_of geojson ''coordinates'')
                         then JArr [geojson] else geojson);
             collection = (case geojson1 of
                             JArr xs \<Rightarrow> Some (JArr xs)
                           | _ \<Rightarrow> if truthy (member_of geojson1 ''features'')
                                  then member_of geojson1 ''features''
                                  else member_of geojson1 ''geometries'')
         in if \<not> truthy collection then (None, L)
            else case collection of
                   Some (JArr xs) \<Rightarrow> makeFeature_loop (sortFeatures_json (umap L) xs) L
                 | _ \<Rightarrow> (Some TypeError, L)))"

text \<open>\<^verbatim>\<open>addData(geojson, sync)\<close>: whatever \<^verbatim>\<open>makeFeatures\<close> throws is caught and
  logged.\<close>

definition addData :: "json \<Rightarrow> datalayer \<Rightarrow> datalayer" where
  "addData geojson L = snd (makeFeatures geojson L)"

definition fromGeoJSON :: "json \<Rightarrow> datalayer \<Rightarrow> datalayer" where
  "fromGeoJSON geojson L =
     (let L1 = addData geojson L;
          L2 = L1\<lparr>m_geojson := Some geojson\<rparr>
      in onDataLoaded L2)"

text \<open>
  \<^verbatim>\<open>fetchRemoteData(force)\<close>, with the response of its request (\<open>None\<close> when the
  transport gives none); \<open>remote_url\<close> is the address it computes, through the proxy
  when the descriptor asks for it. The document is parsed after \<^verbatim>\<open>clear()\<close> has run; when the
  parser's promise rejects, the \<^verbatim>\<open>then\<close> branch never runs.
\<close>

definition remote_url :: "datalayer \<Rightarrow> url" where
  "remote_url L =
     (let url = RenderUrl (opt_member (remoteData L) ''url'')
      in if truthy (opt_member (remoteData L) ''proxy'')
         then ProxyUrl url (opt_member (remoteData L) ''ttl'') else url)"

definition fetchRemoteData :: "bool \<Rightarrow> remote_response option \<Rightarrow> datalayer \<Rightarrow> datalayer" where
  "fetchRemoteData force resp L =
     (if \<not> isRemoteLayer L then L
      else if \<not> hasDynamicData L \<and> hasDataLoaded L \<and> \<not> force then L
      else if \<not> isVisible L then L
      else
        (let url = remote_url L;
             L1 = send (RequestGet url) L
         in case resp of
              None \<Rightarrow> L1
            | Some response \<Rightarrow>
                if rr_ok response
                then (let L2 = clear L1
                      in case formatter_parse (umap L2) (rr_text response)
                                (opt_member (remoteData L2) ''format'') of
                           None \<Rightarrow> L2
                         | Some geojson \<Rightarrow> fromGeoJSON geojson L2)
                else L1))"

text \<open>
  \<^verbatim>\<open>o.k = v\<close> on an object, and \<^verbatim>\<open>g.k1.k2 = v\<close> on a document: the inner object
  has to be there, a write to a member of \<^verbatim>\<open>undefined\<close>, \<^verbatim>\<open>null\<close> or (the module
  being strict) a primitive throws. Storing \<^verbatim>\<open>undefined\<close> leaves the member
  unreadable, as if it were deleted. An array is never an option bag here: it is taken
  with the primitives.
\<close>

definition store :: "jsobject \<Rightarrow> string \<Rightarrow> json option \<Rightarrow> jsobject" where
  "store obj k v = (case v of None \<Rightarrow> AList.delete k obj | Some x \<Rightarrow> AList.update k x obj)"

definition store_in :: "json \<Rightarrow> string \<Rightarrow> string \<Rightarrow> json option \<Rightarrow> json completion" where
  "store_in g k1 k2 v =
     (case g of
        JObj kvs \<Rightarrow>
          (case map_of kvs k1 of
             Some (JObj inner) \<Rightarrow> Return (JObj (AList.update k1 (JObj (store inner k2 v)) kvs))
           | _ \<Rightarrow> Throw TypeError)
      | _ \<Rightarrow> Throw TypeError)"

text \<open>
  \<^verbatim>\<open>fromUmapGeoJSON(geojson)\<close>, with the response of the remote request it may await.
  The id is written into \<^verbatim>\<open>geojson._umap_options\<close> before the test that it is there.
  \<^verbatim>\<open>setOptions\<close> deletes the member \<^verbatim>\<open>geojson\<close> from the object it is given, which is
  the one inside the document.
\<close>

definition fromUmapGeoJSON ::
  "json \<Rightarrow> remote_response option \<Rightarrow> datalayer \<Rightarrow> js_error option \<times> datalayer" where
  "fromUmapGeoJSON geojson resp L =
     (let geojson1 = (case geojson of
                        JObj kvs \<Rightarrow>
                          (case map_of kvs ''_storage'' of
                             Some s \<Rightarrow> if truthy (Some s)
                                       then JObj (AList.update ''_umap_options'' s kvs)
                                       else geojson
                           | None \<Rightarrow> geojson)
                      | _ \<Rightarrow> geojson)
      in case store_in geojson1 ''_umap_options'' ''id'' (map_of (options L) ''id'') of
           Throw e \<Rightarrow> (Some e, L)
         | Return geojson2 \<Rightarrow>
             (let L1 = (case member_of geojson2 ''_umap_options'' of
                          Some (JObj opts) \<Rightarrow> setOptions opts L
                        | _ \<Rightarrow> L);
                  geojson3 = (case store_in geojson2 ''_umap_options'' ''geojson'' None of
                                Return g \<Rightarrow> g
                              | Throw e \<Rightarrow> geojson2);
                  L2 = (if isRemoteLayer L1 then fetchRemoteData False resp L1
                        else fromGeoJSON geojson3 L1)
              in (None, L2\<lparr>m_loaded := True\<rparr>)))"

text \<open>
  \<^verbatim>\<open>fetchData()\<close> run to its end, with the reply to its request. The flag
  \<^verbatim>\<open>_loading\<close> is reset on the last line of the branch \<^verbatim>\<open>if (!error)\<close> only.
\<close>

definition fetchData ::
  "reply \<Rightarrow> remote_response option \<Rightarrow> datalayer \<Rightarrow> js_error option \<times> datalayer" where
  "fetchData rp resp L =
     (if \<not> createdOnServer L then (None, L)
      else if m_loading L then (None, L)
      else
        (let L1 = send (ServerGet (p_dataUrl L)) (L\<lparr>m_loading := True\<rparr>)
         in if r_error rp then (None, L1)
            else case r_response rp of
                   None \<Rightarrow> (Some TypeError, L1)
                 | Some response \<Rightarrow>
                     (let L2 = setReferenceVersion response L1;
                          geojson = r_data rp;
                          editMode = map_of (options L2) ''editMode''
                      in if geojson = JNull then (Some TypeError, L2)
                         else
                           (let g1 = (if truthy (member_of geojson ''_umap_options'')
                                      then store_in geojson ''_umap_options'' ''editMode'' editMode
                                      else Return geojson)
                            in case g1 of
                                 Throw e \<Rightarrow> (Some e, L2)
                               | Return geojson1 \<Rightarrow>
                                   (let g2 = (if truthy (member_of geojson1 ''_storage'')
                                              then store_in geojson1 ''_storage'' ''editMode'' editMode
                                              else Return geojson1)
                                    in case g2 of
                                         Throw e \<Rightarrow> (Some e, L2)
                                       | Return geojson2 \<Rightarrow>
                                           (case fromUmapGeoJSON geojson2 resp L2 of
                                              (Some e, L3) \<Rightarrow> (Some e, L3)
                                            | (None, L3) \<Rightarrow>
                                                (None, (backupOptions L3)\<lparr>m_loading := False\<rparr>)))))))"

section \<open>The dirty and deleted flags\<close>

text \<open>\<^verbatim>\<open>onDirty(status)\<close>; with a false status the setter of \<^verbatim>\<open>isDeleted\<close> only
  stores it.\<close>

definition onDirty :: "bool \<Rightarrow> datalayer \<Rightarrow> datalayer" where
  "onDirty status L =
     (if status then (if \<not> isLoaded L then fetchData_start L else L)
      else L\<lparr>m_isDeleted := False\<rparr>)"

text \<open>
  Modelled from the spec: the base class \<^verbatim>\<open>ServerStored\<close> (\<^verbatim>\<open>saving.js\<close>), which
  holds the accessor \<^verbatim>\<open>isDirty\<close>, is not in the source tree. The specification
  gives a layer a flag \<open>dirty\<close> whose transitions are reported to the coordinator; the
  setter stores the flag and runs the hook \<^verbatim>\<open>onDirty(status)\<close> that the data layer
  defines for it.
\<close>

definition set_isDirty :: "bool \<Rightarrow> datalayer \<Rightarrow> datalayer" where
  "set_isDirty status L = onDirty status (L\<lparr>m_isDirty := status\<rparr>)"

definition set_isDeleted :: "bool \<Rightarrow> datalayer \<Rightarrow> datalayer" where
  "set_isDeleted status L =
     (let L1 = L\<lparr>m_isDeleted := status\<rparr>
      in if status then set_isDirty status L1 else L1)"

definition erase :: "datalayer \<Rightarrow> datalayer" where
  "erase L =
     (let L1 = hide L;
          L2 = L1\<lparr>umap := (umap L1)\<lparr>datalayersIndex :=
                  splice1 (getRank L1) (datalayersIndex (umap L1))\<rparr>\<rparr>;
          L3 = clear L2
      in L3\<lparr>m_loaded := False, m_dataloaded := False\<rparr>)"

definition p_delete :: "datalayer \<Rightarrow> datalayer" where
  "p_delete L = erase (set_isDeleted True L)"

definition empty :: "datalayer \<Rightarrow> datalayer" where
  "empty L = (if isRemoteLayer L then L else set_isDirty True (clear L))"

section \<open>Saving\<close>

text \<open>Modelled from the spec: \<^verbatim>\<open>feature.toGeoJSON()\<close> is a method of the feature
  classes (\<^verbatim>\<open>features.js\<close>, not in the source tree). Exporting a feature gives back
  its geometry kind and its properties: the GeoJSON feature of the two.\<close>

definition toGeoJSON :: "feature \<Rightarrow> json" where
  "toGeoJSON f = JObj [(''type'', JStr ''Feature''), (''geometry'', f_geometry f),
     (''properties'', JObj (properties f))]"

text \<open>\<^verbatim>\<open>featuresToGeoJSON()\<close>, through \<^verbatim>\<open>eachFeature\<close>: an id of the order
  sequence with no feature under it gives \<^verbatim>\<open>undefined\<close>, whose method call throws.\<close>

definition featuresToGeoJSON :: "datalayer \<Rightarrow> json list completion" where
  "featuresToGeoJSON L =
     (if list_all (\<lambda>idx. map_of (m_features L) idx \<noteq> None) (m_index L)
      then Return (map (\<lambda>idx. case map_of (m_features L) idx of
                                 Some f \<Rightarrow> toGeoJSON f | None \<Rightarrow> JNull) (m_index L))
      else Throw TypeError)"

definition umapGeoJSON :: "datalayer \<Rightarrow> json completion" where
  "umapGeoJSON L =
     (case (if isRemoteLayer L then Return [] else featuresToGeoJSON L) of
        Throw e \<Rightarrow> Throw e
      | Return features \<Rightarrow>
          Return (JObj [(''type'', JStr ''FeatureCollection''), (''features'', JArr features),
                        (''_umap_options'', JObj (options L))]))"

text \<open>The members of the object a reply carries; a primitive has none (and an array's
  are not option names).\<close>

definition members :: "json \<Rightarrow> jsobject" where
  "members v = (case v of JObj kvs \<Rightarrow> kvs | _ \<Rightarrow> [])"

text \<open>\<^verbatim>\<open>this._umap.saveAll()\<close> is the coordinator's; the call is counted.\<close>

definition saveAll :: "datalayer \<Rightarrow> datalayer" where
  "saveAll L = L\<lparr>umap := (umap L)\<lparr>saveAll_calls := Suc (saveAll_calls (umap L))\<rparr>\<rparr>"

definition raise_conflict :: "retry \<Rightarrow> datalayer \<Rightarrow> datalayer" where
  "raise_conflict rt L = L\<lparr>umap := (umap L)\<lparr>conflicts := conflicts (umap L) @ [rt]\<rparr>\<rparr>"

text \<open>
  The block \<^verbatim>\<open>if (data.geojson)\<close> of \<^verbatim>\<open>_trySave\<close>: a reply that carries a
  feature collection replaces the features of the layer.
\<close>

definition absorb_geojson :: "jsobject \<Rightarrow> datalayer \<Rightarrow> datalayer" where
  "absorb_geojson data L =
     (case map_of data ''geojson'' of
        Some g \<Rightarrow> if truthy (Some g) then fromGeoJSON g (clear L) else L
      | None \<Rightarrow> L)"

text \<open>
  \<^verbatim>\<open>_trySave(url, headers, formData)\<close>, with the reply to its request. On a status
  412 the alert receives the callback as a closure over \<open>url\<close> and \<open>formData\<close>; the
  function then returns \<^verbatim>\<open>undefined\<close>, as it does on every other error.
\<close>

definition p_trySave ::
  "url \<Rightarrow> (string \<times> string) list \<Rightarrow> formData \<Rightarrow> reply \<Rightarrow> datalayer
     \<Rightarrow> bool option completion \<times> datalayer" where
  "p_trySave url headers fd rp L =
     (let L1 = send (ServerPost url headers (Some fd)) L
      in if r_error rp then
           (case r_response rp of
              Some response \<Rightarrow>
                if h_status response = 412
                then (Return None, raise_conflict \<lparr>rt_url = url, rt_formData = fd\<rparr> L1)
                else (Return None, L1)
            | None \<Rightarrow> (Return None, L1))
         else if r_data rp = JNull then (Throw TypeError, L1)
         else
           (let data = members (r_data rp);
                L2 = absorb_geojson data L1;
                data1 = (if truthy (map_of data ''geojson'')
                         then AList.delete ''geojson'' data else data);
                data2 = AList.delete ''_referenceVersion'' (AList.delete ''id'' data1);
                L3 = updateOptions data2 L2
            in case r_response rp of
                 None \<Rightarrow> (Throw TypeError, L3)
               | Some response \<Rightarrow>
                   (let L4 = setReferenceVersion response L3;
                        L5 = backupOptions L4;
                        L6 = backupData L5;
                        L7 = connectToMap L6;
                        L8 = L7\<lparr>m_loaded := True\<rparr>
                    in (Return (Some True), redraw L8))))"

text \<open>The callback of the conflict alert, with the reply to the request it sends.\<close>

definition conflict_retry :: "retry \<Rightarrow> reply \<Rightarrow> datalayer \<Rightarrow> unit completion \<times> datalayer" where
  "conflict_retry rt rp L =
     (case p_trySave (rt_url rt) [] (rt_formData rt) rp L of
        (Throw e, L1) \<Rightarrow> (Throw e, L1)
      | (Return status, L1) \<Rightarrow>
          if status = Some True then (Return (), saveAll (set_isDirty False L1))
          else (Return (), L1))"

definition saveDelete :: "datalayer \<Rightarrow> bool option completion \<times> datalayer" where
  "saveDelete L =
     (let L1 = (if createdOnServer L then send (ServerPost (getDeleteUrl L) [] None) L else L)
      in (Return (Some True),
          L1\<lparr>umap := (umap L1)\<lparr>datalayers := datalayers (umap L1) - {layer_id L1}\<rparr>\<rparr>))"

text \<open>
  The pieces of the request that \<^verbatim>\<open>save()\<close> builds, and \<^verbatim>\<open>save()\<close> with the
  reply to its request. The snapshot holds \<^verbatim>\<open>this.options\<close> by reference; it is kept
  here with the value the options have when it is taken, which is what the request
  carries.
\<close>

definition save_formData :: "datalayer \<Rightarrow> json \<Rightarrow> formData" where
  "save_formData L geojson =
     \<lparr>fd_name = map_of (options L) ''name'',
      fd_display_on_load = truthy (map_of (options L) ''displayOnLoad''),
      fd_rank = getRank L,
      fd_settings = options L,
      fd_geojson = geojson\<rparr>"

definition saveURL :: "datalayer \<Rightarrow> url" where
  "saveURL L = Datalayer_save (map_of (options L) ''id'') (createdOnServer L)"

definition save_headers :: "datalayer \<Rightarrow> (string \<times> string) list" where
  "save_headers L =
     (case m_referenceVersion L of
        Some v \<Rightarrow> if v \<noteq> [] then [(''X-Datalayer-Reference'', v)] else []
      | None \<Rightarrow> [])"

definition save :: "reply \<Rightarrow> datalayer \<Rightarrow> bool option completion \<times> datalayer" where
  "save rp L =
     (if m_isDeleted L then saveDelete L
      else if \<not> isLoaded L then (Return None, L)
      else case umapGeoJSON L of
             Throw e \<Rightarrow> (Throw e, L)
           | Return geojson \<Rightarrow>
               (case p_trySave (saveURL L) (save_headers L) (save_formData L geojson) rp L of
                  (Throw e, L1) \<Rightarrow> (Throw e, L1)
                | (Return status, L1) \<Rightarrow> (Return status, L1\<lparr>m_geojson := Some geojson\<rparr>)))"

section \<open>Sequences of operations\<close>

text \<open>
  \<^verbatim>\<open>show()\<close> run to its end, with the replies to the requests it may send, and
  \<^verbatim>\<open>toggle()\<close>, which does not await the \<^verbatim>\<open>show()\<close> it calls.
\<close>

definition show_layer :: "reply \<Rightarrow> remote_response option \<Rightarrow> datalayer \<Rightarrow> datalayer" where
  "show_layer rp resp L =
     (let L1 = L\<lparr>onMap := True\<rparr>
      in if \<not> isLoaded L1 then snd (fetchData rp resp L1) else L1)"

definition toggle :: "datalayer \<Rightarrow> datalayer" where
  "toggle L = (if \<not> isVisible L then show_start L else hide L)"

text \<open>
  What a client may do to a layer, each call with the replies the transport gives to
  it. A run keeps the state and drops the values returned.
\<close>

datatype operation =
  AddFeature feature
  | RemoveFeature feature
  | Clear
  | Reindex
  | IndexProperty string
  | DeindexProperty string
  | FetchData reply "remote_response option"
  | FetchRemoteData bool "remote_response option"
  | Save reply
  | ConflictRetry retry reply
  | Delete
  | Empty
  | SetDirty bool
  | Show reply "remote_response option"
  | Hide
  | Toggle
  | UpdateOptions jsobject

fun run :: "operation \<Rightarrow> datalayer \<Rightarrow> datalayer" where
  "run (AddFeature f) L = addFeature f L"
| "run (RemoveFeature f) L = removeFeature f L"
| "run Clear L = clear L"
| "run Reindex L = reindex L"
| "run (IndexProperty name) L = indexProperty name L"
| "run (DeindexProperty name) L = deindexProperty name L"
| "run (FetchData rp resp) L = snd (fetchData rp resp L)"
| "run (FetchRemoteData force resp) L = fetchRemoteData force resp L"
| "run (Save rp) L = snd (save rp L)"
| "run (ConflictRetry rt rp) L = snd (conflict_retry rt rp L)"
| "run Delete L = p_delete L"
| "run Empty L = empty L"
| "run (SetDirty status) L = set_isDirty status L"
| "run (Show rp resp) L = show_layer rp resp L"
| "run Hide L = hide L"
| "run Toggle L = toggle L"
| "run (UpdateOptions opts) L = updateOptions opts L"

definition run_all :: "operation list \<Rightarrow> datalayer \<Rightarrow> datalayer" where
  "run_all ops L = fold run ops L"

section \<open>Concrete layers\<close>

text \<open>A map with no layer on it, whose collaborators keep the order they are given and
  parse nothing.\<close>

definition ex_umap :: umap where
  "ex_umap = \<lparr>datalayers = {}, datalayersIndex = [], lastId = 0, requests = [],
     conflicts = [], saveAll_calls = 0, sortFeatures_json = (\<lambda>xs. xs),
     sortFeatures_obj = (\<lambda>fs. fs), formatter_parse = (\<lambda>raw format. None)\<rparr>"

text \<open>A layer as the constructor leaves it when it was never saved: no reference
  version, nothing loaded, no feature, dirty.\<close>

definition ex_layer :: datalayer where
  "ex_layer = \<lparr>umap = ex_umap, layer_id = 1, m_index = [], m_features = [],
     m_geojson = None, m_geojson_bk = None, m_propertiesIndex = [], m_loaded = False,
     m_dataloaded = False, m_loading = False, m_isDeleted = False, m_isDirty = True,
     m_referenceVersion = None, options = DEFAULT_OPTIONS,
     m_backupOptions = DEFAULT_OPTIONS, layer = Some ''Default'', onMap = True\<rparr>"

definition ex_feature :: "nat \<Rightarrow> jsobject \<Rightarrow> feature" where
  "ex_feature n props = \<lparr>leaflet_id = n, f_class = Point,
     f_geometry = JObj [(''type'', JStr ''Point'')], properties = props\<rparr>"

text \<open>Two replies of the server: a success that carries the version \<open>v1\<close>, and a
  precondition failure. A layer that has been saved before, not loaded yet, and the same
  layer loaded as the mirror of a static remote document.\<close>

definition ex_reply_ok :: reply where
  "ex_reply_ok = \<lparr>r_data = JObj [], r_response = Some \<lparr>h_status = 200, h_version = Some ''v1''\<rparr>,
     r_error = False\<rparr>"

definition ex_reply_conflict :: reply where
  "ex_reply_conflict = \<lparr>r_data = JNull, r_response = Some \<lparr>h_status = 412, h_version = None\<rparr>,
     r_error = True\<rparr>"

definition ex_saved_layer :: datalayer where
  "ex_saved_layer = ex_layer\<lparr>m_referenceVersion := Some ''v0'', m_isDirty := False,
     umap := ex_umap\<lparr>datalayers := {1}, datalayersIndex := [1]\<rparr>\<rparr>"

definition ex_remote_layer :: datalayer where
  "ex_remote_layer = ex_saved_layer\<lparr>options := DEFAULT_OPTIONS @
     [(''remoteData'', JObj [(''url'', JStr ''https://example.org/data.csv''),
        (''format'', JStr ''csv'')])], m_loaded := True, m_dataloaded := True\<rparr>"

text \<open>
  The words of the specification for the property index: a scalar is a string, a number
  or a boolean; a reserved name starts with an underscore.
\<close>

definition scalar :: "json \<Rightarrow> bool" where
  "scalar v = (case v of JBool b \<Rightarrow> True | JNum n \<Rightarrow> True | JStr s \<Rightarrow> True | _ \<Rightarrow> False)"

definition reserved :: "string \<Rightarrow> bool" where
  "reserved name = (case name of [] \<Rightarrow> False | c # cs \<Rightarrow> c = CHR ''_'')"

definition ex_properties :: jsobject where
  "ex_properties = [(''name'', JStr ''A''), (''geo'', JObj [(''x'', JNum 1)]),
     (''_internal'', JNum 2)]"

text \<open>
  The invariant the specification gives the feature index: the ids of the order sequence
  are the keys of the feature map, and no id occurs twice.
\<close>

definition index_consistent :: "datalayer \<Rightarrow> bool" where
  "index_consistent L =
     (set (m_index L) = fst ` set (m_features L) \<and> distinct (m_index L))"

text \<open>
  The features a collection describes, in the words of the specification: each element
  whose geometry kind is known gives one feature, in the order of the collection, with
  the next stamp after \<open>n\<close>; the other elements are skipped.
\<close>

fun materialize :: "nat \<Rightarrow> json list \<Rightarrow> feature list" where
  "materialize n [] = []"
| "materialize n (g # gs) =
     (case feature_class_of (geometry_of g) of
        None \<Rightarrow> materialize n gs
      | Some c \<Rightarrow>
          \<lparr>leaflet_id = Suc n, f_class = c, f_geometry = geometry_of g,
            properties = properties_of g\<rparr> # materialize (Suc n) gs)"

text \<open>A document that carries a feature collection: an object, no single feature and
  no bare geometry, whose member \<^verbatim>\<open>features\<close> is the array \<open>xs\<close>.\<close>

definition feature_collection :: "json \<Rightarrow> json list \<Rightarrow> bool" where
  "feature_collection g xs =
     (member_of g ''features'' = Some (JArr xs)
      \<and> member_of g ''type'' \<noteq> Some (JStr ''Feature'')
      \<and> \<not> truthy (member_of g ''coordinates''))"

definition ex_point :: json where
  "ex_point = JObj [(''type'', JStr ''Feature''),
     (''geometry'', JObj [(''type'', JStr ''Point'')]),
     (''properties'', JObj [(''name'', JStr ''A'')])]"

definition ex_circle :: json where
  "ex_circle = JObj [(''type'', JStr ''Feature''),
     (''geometry'', JObj [(''type'', JStr ''Circle'')])]"

definition ex_collection :: json where
  "ex_collection = JObj [(''type'', JStr ''FeatureCollection''),
     (''features'', JArr [ex_point, ex_circle])]"

text \<open>The snapshot of the layer that was never saved, and a layer that is on the server,
  loaded and edited.\<close>

definition ex_snapshot :: json where
  "ex_snapshot = JObj [(''type'', JStr ''FeatureCollection''), (''features'', JArr []),
     (''_umap_options'', JObj DEFAULT_OPTIONS)]"




text \<open>The remote layer holding one feature, and a response whose body the parser
  rejects.\<close>

definition ex_remote_with_feature :: datalayer where
  "ex_remote_with_feature = addFeature (ex_feature 7 []) ex_remote_layer"

definition ex_bad_response :: remote_response where
  "ex_bad_response = \<lparr>rr_ok = True, rr_text = ''<html>''\<rparr>"

text \<open>The same layer on a map whose parser reads every body as the example collection.\<close>

definition ex_parsing_layer :: datalayer where
  "ex_parsing_layer = ex_remote_with_feature\<lparr>umap :=
     (umap ex_remote_with_feature)\<lparr>lastId := 7,
        formatter_parse := (\<lambda>raw format. Some ex_collection)\<rparr>\<rparr>"

text \<open>A reply that reports an error of the server.\<close>

definition ex_reply_error :: reply where
  "ex_reply_error = \<lparr>r_data = JNull, r_response = Some \<lparr>h_status = 500, h_version = None\<rparr>,
     r_error = True\<rparr>"

section \<open>What each step leaves alone\<close>

lemma indexProperty_frame:
  "\<exists>x. indexProperty name L = L\<lparr>m_propertiesIndex := x\<rparr>"
proof (cases "indexProperty name L = L")
  case True
  then have "indexProperty name L = L\<lparr>m_propertiesIndex := m_propertiesIndex L\<rparr>" by simp
  then show ?thesis ..
next
  case False
  then have "indexProperty name L = L\<lparr>m_propertiesIndex := sort (m_propertiesIndex L @ [name])\<rparr>"
    by (simp add: indexProperty_def split: if_splits)
  then show ?thesis ..
qed

lemma indexProperties_frame_aux:
  "\<exists>x. fold (\<lambda>i L'. if P i then indexProperty i L' else L') ks L = L\<lparr>m_propertiesIndex := x\<rparr>"
proof (induction ks arbitrary: L)
  case Nil
  have "fold (\<lambda>i L'. if P i then indexProperty i L' else L') [] L = L\<lparr>m_propertiesIndex := m_propertiesIndex L\<rparr>"
    by simp
  then show ?case ..
next
  case (Cons k ks)
  let ?F = "\<lambda>i L'. if P i then indexProperty i L' else L'"
  obtain y where y: "?F k L = L\<lparr>m_propertiesIndex := y\<rparr>"
  proof (cases "P k")
    case True
    obtain z where "indexProperty k L = L\<lparr>m_propertiesIndex := z\<rparr>"
      using indexProperty_frame by blast
    with True that show ?thesis by simp
  next
    case False
    then have "?F k L = L\<lparr>m_propertiesIndex := m_propertiesIndex L\<rparr>" by simp
    with that show ?thesis .
  qed
  obtain x where x: "fold ?F ks (?F k L) = (?F k L)\<lparr>m_propertiesIndex := x\<rparr>"
    using Cons.IH by blast
  have "fold ?F (k # ks) L = fold ?F ks (?F k L)" by simp
  also have "\<dots> = (?F k L)\<lparr>m_propertiesIndex := x\<rparr>" by (rule x)
  also have "\<dots> = L\<lparr>m_propertiesIndex := x\<rparr>" by (simp only: y) simp
  finally show ?case ..
qed

lemma indexProperties_frame:
  "\<exists>x. indexProperties f L = L\<lparr>m_propertiesIndex := x\<rparr>"
  unfolding indexProperties_def by (rule indexProperties_frame_aux)

lemma addFeature_frame:
  "\<exists>x. addFeature f L = L\<lparr>m_index := m_index L @ [stamp f],
      m_features := AList.update (stamp f) f (m_features L),
      m_propertiesIndex := x\<rparr>"
proof -
  let ?L2 = "L\<lparr>m_index := m_index L @ [stamp f],
      m_features := AList.update (stamp f) f (m_features L)\<rparr>"
  obtain x where "indexProperties f ?L2 = ?L2\<lparr>m_propertiesIndex := x\<rparr>"
    using indexProperties_frame by blast
  then have "addFeature f L = ?L2\<lparr>m_propertiesIndex := x\<rparr>"
    by (simp add: addFeature_def Let_def)
  then show ?thesis by auto
qed

lemma makeFeature_cases:
  "snd (makeFeature g L) = L \<or> (\<exists>f n. snd (makeFeature g L) = addFeature f (L\<lparr>umap := (umap L)\<lparr>lastId := n\<rparr>\<rparr>))"
proof (cases "g = JNull")
  case True
  then show ?thesis by (simp add: makeFeature_def)
next
  case False
  show ?thesis
  proof (cases "feature_class_of (geometry_of g)")
    case None
    with False have "snd (makeFeature g L) = L"
      by (simp add: makeFeature_def)
    then show ?thesis ..
  next
    case (Some c)
    with False have "snd (makeFeature g L) = addFeature
        \<lparr>leaflet_id = Suc (lastId (umap L)), f_class = c, f_geometry = geometry_of g,
          properties = properties_of g\<rparr>
        (L\<lparr>umap := (umap L)\<lparr>lastId := Suc (lastId (umap L))\<rparr>\<rparr>)"
      by (simp add: makeFeature_def Let_def)
    then show ?thesis by blast
  qed
qed

lemma frame_refl:
  "L = L\<lparr>umap := (umap L)\<lparr>lastId := lastId (umap L)\<rparr>,
      m_index := m_index L, m_features := m_features L,
      m_propertiesIndex := m_propertiesIndex L\<rparr>"
  by simp

lemma makeFeature_frame:
  "\<exists>n i fs p. snd (makeFeature g L) = L\<lparr>umap := (umap L)\<lparr>lastId := n\<rparr>,
      m_index := i, m_features := fs, m_propertiesIndex := p\<rparr>"
proof -
  consider "snd (makeFeature g L) = L"
    | f n where "snd (makeFeature g L) = addFeature f (L\<lparr>umap := (umap L)\<lparr>lastId := n\<rparr>\<rparr>)"
    using makeFeature_cases by blast
  then show ?thesis
  proof cases
    case 1
    have "snd (makeFeature g L) = L\<lparr>umap := (umap L)\<lparr>lastId := lastId (umap L)\<rparr>,
      m_index := m_index L, m_features := m_features L,
      m_propertiesIndex := m_propertiesIndex L\<rparr>"
      unfolding 1 by (rule frame_refl)
    then show ?thesis by (intro exI)
  next
    case 2
    let ?L1 = "L\<lparr>umap := (umap L)\<lparr>lastId := n\<rparr>\<rparr>"
    obtain x where "addFeature f ?L1 = ?L1\<lparr>m_index := m_index ?L1 @ [stamp f],
        m_features := AList.update (stamp f) f (m_features ?L1), m_propertiesIndex := x\<rparr>"
      using addFeature_frame by blast
    then have "snd (makeFeature g L) = L\<lparr>umap := (umap L)\<lparr>lastId := n\<rparr>,
        m_index := m_index L @ [stamp f],
        m_features := AList.update (stamp f) f (m_features L), m_propertiesIndex := x\<rparr>"
      unfolding 2 by simp
    then show ?thesis by (intro exI)
  qed
qed

lemma makeFeature_loop_frame:
  "\<exists>n i fs p. snd (makeFeature_loop xs L) = L\<lparr>umap := (umap L)\<lparr>lastId := n\<rparr>,
      m_index := i, m_features := fs, m_propertiesIndex := p\<rparr>"
proof (induction xs arbitrary: L)
  case Nil
  have "snd (makeFeature_loop [] L) = L\<lparr>umap := (umap L)\<lparr>lastId := lastId (umap L)\<rparr>,
      m_index := m_index L, m_features := m_features L,
      m_propertiesIndex := m_propertiesIndex L\<rparr>"
    by simp
  then show ?case by (intro exI)
next
  case (Cons x xs)
  obtain e L1 where mk: "makeFeature x L = (e, L1)" by (cases "makeFeature x L")
  obtain n i fs p where one: "L1 = L\<lparr>umap := (umap L)\<lparr>lastId := n\<rparr>,
      m_index := i, m_features := fs, m_propertiesIndex := p\<rparr>"
    using makeFeature_frame [of x L] mk by auto
  show ?case
  proof (cases e)
    case (Some err)
    then have "snd (makeFeature_loop (x # xs) L) = L1"
      using mk by simp
    then have "snd (makeFeature_loop (x # xs) L) = L\<lparr>umap := (umap L)\<lparr>lastId := n\<rparr>,
      m_index := i, m_features := fs, m_propertiesIndex := p\<rparr>"
      using one by simp
    then show ?thesis by (intro exI)
  next
    case None
    then have step: "snd (makeFeature_loop (x # xs) L) = snd (makeFeature_loop xs L1)"
      using mk by simp
    obtain n' i' fs' p' where rest: "snd (makeFeature_loop xs L1)
        = L1\<lparr>umap := (umap L1)\<lparr>lastId := n'\<rparr>,
            m_index := i', m_features := fs', m_propertiesIndex := p'\<rparr>"
      using Cons.IH by blast
    have "snd (makeFeature_loop (x # xs) L) = L\<lparr>umap := (umap L)\<lparr>lastId := n'\<rparr>,
        m_index := i', m_features := fs', m_propertiesIndex := p'\<rparr>"
      unfolding step rest unfolding one by simp
    then show ?thesis by (intro exI)
  qed
qed

lemma makeFeatures_cases:
  "snd (makeFeatures g L) = L \<or> (\<exists>xs. snd (makeFeatures g L) = snd (makeFeature_loop xs L))"
proof (cases "g = JNull")
  case True
  then show ?thesis by (simp add: makeFeatures_def)
next
  case False
  define g1 where "g1 = (if member_of g ''type'' = Some (JStr ''Feature'')
                            \<or> truthy (member_of g ''coordinates'')
                         then JArr [g] else g)"
  define collection where "collection = (case g1 of
                             JArr xs \<Rightarrow> Some (JArr xs)
                           | _ \<Rightarrow> if truthy (member_of g1 ''features'')
                                  then member_of g1 ''features''
                                  else member_of g1 ''geometries'')"
  have mf: "makeFeatures g L = (if \<not> truthy collection then (None, L)
            else case collection of
                   Some (JArr xs) \<Rightarrow> makeFeature_loop (sortFeatures_json (umap L) xs) L
                 | _ \<Rightarrow> (Some TypeError, L))"
    unfolding makeFeatures_def Let_def g1_def collection_def using False by (simp only: if_False)
  show ?thesis
  proof (cases "\<exists>xs. collection = Some (JArr xs)")
    case True
    then obtain xs where "collection = Some (JArr xs)" by blast
    then have "snd (makeFeatures g L) = snd (makeFeature_loop (sortFeatures_json (umap L) xs) L)"
      unfolding mf by simp
    then show ?thesis by blast
  next
    case False
    then have "snd (makeFeatures g L) = L"
      unfolding mf by (simp split: option.splits json.splits)
    then show ?thesis ..
  qed
qed

lemma makeFeatures_frame:
  "\<exists>n i fs p. snd (makeFeatures g L) = L\<lparr>umap := (umap L)\<lparr>lastId := n\<rparr>,
      m_index := i, m_features := fs, m_propertiesIndex := p\<rparr>"
proof -
  consider "snd (makeFeatures g L) = L"
    | xs where "snd (makeFeatures g L) = snd (makeFeature_loop xs L)"
    using makeFeatures_cases by blast
  then show ?thesis
  proof cases
    case 1
    have "snd (makeFeatures g L) = L\<lparr>umap := (umap L)\<lparr>lastId := lastId (umap L)\<rparr>,
      m_index := m_index L, m_features := m_features L,
      m_propertiesIndex := m_propertiesIndex L\<rparr>"
      unfolding 1 by (rule frame_refl)
    then show ?thesis by (intro exI)
  next
    case 2
    show ?thesis unfolding 2 by (rule makeFeature_loop_frame)
  qed
qed

lemma clear_eq:
  "clear L = L\<lparr>m_index := [], m_features := [],
      m_geojson := (if truthy (m_geojson L) then None else m_geojson L),
      m_geojson_bk := (if truthy (m_geojson L) then m_geojson L else m_geojson_bk L)\<rparr>"
  by (simp add: clear_def backupData_def Let_def)

lemma fromGeoJSON_frame:
  "\<exists>n i fs p. fromGeoJSON g L = L\<lparr>umap := (umap L)\<lparr>lastId := n\<rparr>,
      m_index := i, m_features := fs, m_propertiesIndex := p, m_geojson := Some g,
      m_dataloaded := True\<rparr>"
proof -
  obtain n i fs p where "snd (makeFeatures g L) = L\<lparr>umap := (umap L)\<lparr>lastId := n\<rparr>,
      m_index := i, m_features := fs, m_propertiesIndex := p\<rparr>"
    using makeFeatures_frame by blast
  then have "fromGeoJSON g L = L\<lparr>umap := (umap L)\<lparr>lastId := n\<rparr>,
      m_index := i, m_features := fs, m_propertiesIndex := p, m_geojson := Some g,
      m_dataloaded := True\<rparr>"
    by (simp add: fromGeoJSON_def addData_def onDataLoaded_def Let_def)
  then show ?thesis by (intro exI)
qed

lemma fromGeoJSON_fields:
  "m_isDirty (fromGeoJSON g L) = m_isDirty L"
  "m_isDeleted (fromGeoJSON g L) = m_isDeleted L"
  "m_loading (fromGeoJSON g L) = m_loading L"
  "m_loaded (fromGeoJSON g L) = m_loaded L"
  "m_referenceVersion (fromGeoJSON g L) = m_referenceVersion L"
  "m_geojson (fromGeoJSON g L) = Some g"
  "m_geojson_bk (fromGeoJSON g L) = m_geojson_bk L"
  "m_dataloaded (fromGeoJSON g L) = True"
  "options (fromGeoJSON g L) = options L"
  "m_backupOptions (fromGeoJSON g L) = m_backupOptions L"
  "layer (fromGeoJSON g L) = layer L"
  "onMap (fromGeoJSON g L) = onMap L"
  "layer_id (fromGeoJSON g L) = layer_id L"
  "requests (umap (fromGeoJSON g L)) = requests (umap L)"
  "conflicts (umap (fromGeoJSON g L)) = conflicts (umap L)"
  "saveAll_calls (umap (fromGeoJSON g L)) = saveAll_calls (umap L)"
  "datalayers (umap (fromGeoJSON g L)) = datalayers (umap L)"
  "datalayersIndex (umap (fromGeoJSON g L)) = datalayersIndex (umap L)"
proof -
  obtain n i fs p where e: "fromGeoJSON g L = L\<lparr>umap := (umap L)\<lparr>lastId := n\<rparr>,
      m_index := i, m_features := fs, m_propertiesIndex := p, m_geojson := Some g,
      m_dataloaded := True\<rparr>"
    using fromGeoJSON_frame by blast
  show "m_isDirty (fromGeoJSON g L) = m_isDirty L"
  "m_isDeleted (fromGeoJSON g L) = m_isDeleted L"
  "m_loading (fromGeoJSON g L) = m_loading L"
  "m_loaded (fromGeoJSON g L) = m_loaded L"
  "m_referenceVersion (fromGeoJSON g L) = m_referenceVersion L"
  "m_geojson (fromGeoJSON g L) = Some g"
  "m_geojson_bk (fromGeoJSON g L) = m_geojson_bk L"
  "m_dataloaded (fromGeoJSON g L) = True"
  "options (fromGeoJSON g L) = options L"
  "m_backupOptions (fromGeoJSON g L) = m_backupOptions L"
  "layer (fromGeoJSON g L) = layer L"
  "onMap (fromGeoJSON g L) = onMap L"
  "layer_id (fromGeoJSON g L) = layer_id L"
  "requests (umap (fromGeoJSON g L)) = requests (umap L)"
  "conflicts (umap (fromGeoJSON g L)) = conflicts (umap L)"
  "saveAll_calls (umap (fromGeoJSON g L)) = saveAll_calls (umap L)"
  "datalayers (umap (fromGeoJSON g L)) = datalayers (umap L)"
  "datalayersIndex (umap (fromGeoJSON g L)) = datalayersIndex (umap L)"
    unfolding e by simp_all
qed

lemma addFeature_fields:
  "m_isDirty (addFeature f L) = m_isDirty L"
  "m_isDeleted (addFeature f L) = m_isDeleted L"
  "m_loading (addFeature f L) = m_loading L"
  "m_index (addFeature f L) = m_index L @ [stamp f]"
  "m_features (addFeature f L) = AList.update (stamp f) f (m_features L)"
  "umap (addFeature f L) = umap L"
proof -
  obtain x where e: "addFeature f L = L\<lparr>m_index := m_index L @ [stamp f],
      m_features := AList.update (stamp f) f (m_features L),
      m_propertiesIndex := x\<rparr>"
    using addFeature_frame by blast
  show "m_isDirty (addFeature f L) = m_isDirty L"
  "m_isDeleted (addFeature f L) = m_isDeleted L"
  "m_loading (addFeature f L) = m_loading L"
  "m_index (addFeature f L) = m_index L @ [stamp f]"
  "m_features (addFeature f L) = AList.update (stamp f) f (m_features L)"
  "umap (addFeature f L) = umap L"
    unfolding e by simp_all
qed

lemma fetchData_start_eq:
  "fetchData_start L =
     (if createdOnServer L \<and> \<not> m_loading L
      then L\<lparr>umap := (umap L)\<lparr>requests := requests (umap L) @ [ServerGet (p_dataUrl L)]\<rparr>,
             m_loading := True\<rparr>
      else L)"
  by (simp add: fetchData_start_def send_def)

lemma createdOnServer_cong:
  "m_referenceVersion L' = m_referenceVersion L \<Longrightarrow> createdOnServer L' = createdOnServer L"
  by (simp add: createdOnServer_def)

lemma isLoaded_cong:
  "m_referenceVersion L' = m_referenceVersion L \<Longrightarrow> m_loaded L' = m_loaded L
     \<Longrightarrow> isLoaded L' = isLoaded L"
  by (simp add: isLoaded_def createdOnServer_def)

lemma show_start_frame:
  "\<exists>rq ld. show_start L = L\<lparr>umap := (umap L)\<lparr>requests := requests (umap L) @ rq\<rparr>,
        m_loading := ld, onMap := True\<rparr>
     \<and> (m_loading L \<longrightarrow> ld \<and> rq = []) \<and> (isLoaded L \<longrightarrow> ld = m_loading L \<and> rq = [])"
proof (cases "\<not> isLoaded L \<and> createdOnServer L \<and> \<not> m_loading L")
  case True
  then have "show_start L = L\<lparr>umap := (umap L)\<lparr>requests := requests (umap L) @ [ServerGet (p_dataUrl L)]\<rparr>,
        m_loading := True, onMap := True\<rparr>"
    by (simp add: show_start_def Let_def fetchData_start_eq isLoaded_def createdOnServer_def
        p_dataUrl_def)
  with True show ?thesis by blast
next
  case False
  then have "show_start L = L\<lparr>umap := (umap L)\<lparr>requests := requests (umap L) @ []\<rparr>,
        m_loading := m_loading L, onMap := True\<rparr>"
    by (auto simp: show_start_def Let_def fetchData_start_eq isLoaded_def createdOnServer_def)
  moreover have "m_loading L \<longrightarrow> m_loading L \<and> ([]::request list) = []" by simp
  ultimately show ?thesis by blast
qed

lemma resetLayer_frame:
  "\<exists>rq ld ly om. resetLayer force L = L\<lparr>umap := (umap L)\<lparr>requests := requests (umap L) @ rq\<rparr>,
        m_loading := ld, layer := ly, onMap := om\<rparr>
     \<and> (m_loading L \<longrightarrow> ld \<and> rq = []) \<and> (isLoaded L \<longrightarrow> ld = m_loading L \<and> rq = [])
     \<and> (isVisible L \<longrightarrow> om \<and> ly \<noteq> None)"
proof (cases "resetLayer force L = L")
  case True
  then have "resetLayer force L = L\<lparr>umap := (umap L)\<lparr>requests := requests (umap L) @ []\<rparr>,
        m_loading := m_loading L, layer := layer L, onMap := onMap L\<rparr>"
    by simp
  moreover have "isVisible L \<longrightarrow> onMap L \<and> layer L \<noteq> None" by (simp add: isVisible_def)
  ultimately show ?thesis by blast
next
  case False
  then obtain c where r: "resetLayer force L =
      (if isVisible L then show_start (L\<lparr>layer := Some c, onMap := False\<rparr>)
       else L\<lparr>layer := Some c, onMap := False\<rparr>)"
    by (auto simp: resetLayer_def Let_def split: if_splits)
  let ?L1 = "L\<lparr>layer := Some c, onMap := False\<rparr>"
  show ?thesis
  proof (cases "isVisible L")
    case True
    obtain rq ld where s: "show_start ?L1 = ?L1\<lparr>umap := (umap ?L1)\<lparr>requests := requests (umap ?L1) @ rq\<rparr>,
        m_loading := ld, onMap := True\<rparr>"
      and m: "m_loading ?L1 \<longrightarrow> ld \<and> rq = []" and l: "isLoaded ?L1 \<longrightarrow> ld = m_loading ?L1 \<and> rq = []"
      using show_start_frame [of ?L1] by blast
    have il: "isLoaded ?L1 = isLoaded L" by (rule isLoaded_cong) simp_all
    have "resetLayer force L = L\<lparr>umap := (umap L)\<lparr>requests := requests (umap L) @ rq\<rparr>,
        m_loading := ld, layer := Some c, onMap := True\<rparr>"
      unfolding r using True s by simp
    moreover have "m_loading L \<longrightarrow> ld \<and> rq = []" using m by simp
    moreover have "isLoaded L \<longrightarrow> ld = m_loading L \<and> rq = []" using l il by simp
    ultimately show ?thesis by blast
  next
    case False
    have "resetLayer force L = L\<lparr>umap := (umap L)\<lparr>requests := requests (umap L) @ []\<rparr>,
        m_loading := m_loading L, layer := Some c, onMap := False\<rparr>"
      unfolding r using False by simp
    with False show ?thesis by blast
  qed
qed

section \<open>Lookup by position\<close>

text \<open>
  C8, counterexample. On a layer that holds one feature, position 5 is out of range:
  the lookup returns \<^verbatim>\<open>undefined\<close>, it does not fail with an \<open>IndexError\<close>.
\<close>

theorem C8_out_of_range_returns_undefined:
  "getFeatureByIndex (addFeature (ex_feature 7 []) ex_layer) 5 = Return None
   \<and> getFeatureByIndex (addFeature (ex_feature 7 []) ex_layer) 5 \<noteq> Throw IndexError"
  by (simp add: getFeatureByIndex_def addFeature_def indexProperties_def ex_layer_def
      ex_feature_def stamp_def)

text \<open>
  C8, as the code has it. Position \<open>-1\<close> resolves to the last element of a non-empty
  order sequence, and a position within the sequence to the feature stored under the id
  at that position. Every other position (beyond the end, below \<open>-1\<close>, or \<open>-1\<close> on an
  empty sequence) returns \<^verbatim>\<open>undefined\<close>: no error is raised and the position is not
  clamped.
\<close>

theorem C8_getFeatureByIndex:
  "(m_index L \<noteq> [] \<longrightarrow>
      getFeatureByIndex L (- 1) = Return (map_of (m_features L) (last (m_index L))))
   \<and> (0 \<le> i \<and> i < int (length (m_index L)) \<longrightarrow>
      getFeatureByIndex L i = Return (map_of (m_features L) (m_index L ! nat i)))
   \<and> (i < - 1 \<or> int (length (m_index L)) \<le> i \<or> (i = - 1 \<and> m_index L = []) \<longrightarrow>
      getFeatureByIndex L i = Return None)"
proof (intro conjI impI)
  assume ne: "m_index L \<noteq> []"
  then have "nat (int (length (m_index L)) - 1) = length (m_index L) - 1"
    by simp
  with ne show "getFeatureByIndex L (- 1) = Return (map_of (m_features L) (last (m_index L)))"
    by (simp add: getFeatureByIndex_def last_conv_nth)
next
  assume "0 \<le> i \<and> i < int (length (m_index L))"
  then show "getFeatureByIndex L i = Return (map_of (m_features L) (m_index L ! nat i))"
    by (simp add: getFeatureByIndex_def)
next
  assume "i < - 1 \<or> int (length (m_index L)) \<le> i \<or> (i = - 1 \<and> m_index L = [])"
  then show "getFeatureByIndex L i = Return None"
    by (auto simp: getFeatureByIndex_def)
qed

theorem C8_getFeatureByIndex_witness:
  "getFeatureByIndex (addFeature (ex_feature 8 []) (addFeature (ex_feature 7 []) ex_layer)) (- 1)
     = Return (Some (ex_feature 8 []))
   \<and> getFeatureByIndex (addFeature (ex_feature 8 []) (addFeature (ex_feature 7 []) ex_layer)) 0
     = Return (Some (ex_feature 7 []))
   \<and> getFeatureByIndex (addFeature (ex_feature 8 []) (addFeature (ex_feature 7 []) ex_layer)) 2
     = Return None
   \<and> getFeatureByIndex (addFeature (ex_feature 8 []) (addFeature (ex_feature 7 []) ex_layer)) (- 2)
     = Return None
   \<and> getFeatureByIndex ex_layer (- 1) = Return None"
  using C8_getFeatureByIndex [of "addFeature (ex_feature 8 []) (addFeature (ex_feature 7 []) ex_layer)" 0]
    C8_getFeatureByIndex [of "addFeature (ex_feature 8 []) (addFeature (ex_feature 7 []) ex_layer)" 2]
    C8_getFeatureByIndex [of "addFeature (ex_feature 8 []) (addFeature (ex_feature 7 []) ex_layer)" "- 2"]
    C8_getFeatureByIndex [of ex_layer "- 1"]
  by (simp add: addFeature_def indexProperties_def ex_layer_def ex_feature_def stamp_def)

section \<open>Deleting\<close>

text \<open>
  C4. Saving a deleted layer takes the tombstone path, whatever the reply \<open>rp\<close>: it
  returns \<^verbatim>\<open>true\<close> and the layer is no longer in the owner's \<^verbatim>\<open>datalayers\<close>. A
  layer that was never persisted sends no request; a persisted one sends exactly one
  request, the delete, with no header (so no conditional version token) and no body.
\<close>

theorem C4_save_deleted:
  "m_isDeleted L \<longrightarrow>
     fst (save rp L) = Return (Some True)
     \<and> layer_id L \<notin> datalayers (umap (snd (save rp L)))
     \<and> (\<not> createdOnServer L \<longrightarrow> requests (umap (snd (save rp L))) = requests (umap L))
     \<and> (createdOnServer L \<longrightarrow>
          requests (umap (snd (save rp L))) = requests (umap L) @ [ServerPost (getDeleteUrl L) [] None])"
  by (simp add: save_def saveDelete_def send_def Let_def)

theorem C4_save_deleted_witness:
  "m_isDeleted (ex_layer\<lparr>m_isDeleted := True\<rparr>)
   \<and> fst (save ex_reply_conflict (ex_layer\<lparr>m_isDeleted := True\<rparr>)) = Return (Some True)
   \<and> requests (umap (snd (save ex_reply_conflict (ex_layer\<lparr>m_isDeleted := True\<rparr>)))) = []
   \<and> m_isDeleted (ex_saved_layer\<lparr>m_isDeleted := True\<rparr>)
   \<and> 1 \<notin> datalayers (umap (snd (save ex_reply_conflict (ex_saved_layer\<lparr>m_isDeleted := True\<rparr>))))
   \<and> requests (umap (snd (save ex_reply_conflict (ex_saved_layer\<lparr>m_isDeleted := True\<rparr>))))
       = [ServerPost (Datalayer_delete None) [] None]"
  using C4_save_deleted [of "ex_layer\<lparr>m_isDeleted := True\<rparr>" ex_reply_conflict]
    C4_save_deleted [of "ex_saved_layer\<lparr>m_isDeleted := True\<rparr>" ex_reply_conflict]
  by (simp add: ex_saved_layer_def ex_layer_def ex_umap_def createdOnServer_def getDeleteUrl_def
      DEFAULT_OPTIONS_def)

section \<open>Remote data\<close>

lemma ex_remote_layer_simps:
  "isRemoteLayer ex_remote_layer" "isVisible ex_remote_layer"
  "\<not> truthy (opt_member (remoteData ex_remote_layer) ''dynamic'')"
  "hasDataLoaded ex_remote_layer"
  "isRemoteLayer (hide ex_remote_layer)" "\<not> isVisible (hide ex_remote_layer)"
  by (simp_all add: ex_remote_layer_def ex_saved_layer_def ex_layer_def isRemoteLayer_def
      remoteData_def DEFAULT_OPTIONS_def isVisible_def hasDataLoaded_def hide_def)

lemma fetchRemoteData_sends:
  "isRemoteLayer L \<Longrightarrow> isVisible L \<Longrightarrow> hasDynamicData L \<or> \<not> hasDataLoaded L \<or> force
    \<Longrightarrow> \<exists>u. requests (umap (fetchRemoteData force None L)) = requests (umap L) @ [RequestGet u]"
  by (auto simp: fetchRemoteData_def send_def Let_def)

text \<open>
  C5. \<^verbatim>\<open>fetchRemoteData\<close> leaves the whole state as it is, request log included, when
  the layer is no remote layer, when it is not visible, or when the remote source is
  static, the data are loaded and \<open>force\<close> is not set. A visible static remote layer
  with its data loaded is touched (its request goes out) only with \<open>force\<close>.
\<close>

theorem C5_fetchRemoteData_skips:
  "(\<not> isRemoteLayer L \<or> \<not> isVisible L
      \<or> (\<not> truthy (opt_member (remoteData L) ''dynamic'') \<and> hasDataLoaded L \<and> \<not> force)
     \<longrightarrow> fetchRemoteData force resp L = L)
   \<and> (isRemoteLayer L \<and> isVisible L \<and> \<not> truthy (opt_member (remoteData L) ''dynamic'')
        \<and> hasDataLoaded L \<and> fetchRemoteData force resp L \<noteq> L \<longrightarrow> force)"
  by (auto simp: fetchRemoteData_def hasDynamicData_def)


theorem C5_fetchRemoteData_skips_witness:
  "isRemoteLayer (hide ex_remote_layer) \<and> \<not> isVisible (hide ex_remote_layer)
   \<and> fetchRemoteData True None (hide ex_remote_layer) = hide ex_remote_layer
   \<and> fetchRemoteData False None ex_remote_layer = ex_remote_layer
   \<and> fetchRemoteData True None ex_remote_layer \<noteq> ex_remote_layer"
proof -
  have ne: "fetchRemoteData True None ex_remote_layer \<noteq> ex_remote_layer"
  proof
    assume e: "fetchRemoteData True None ex_remote_layer = ex_remote_layer"
    obtain u where "requests (umap (fetchRemoteData True None ex_remote_layer))
        = requests (umap ex_remote_layer) @ [RequestGet u]"
      using fetchRemoteData_sends [of ex_remote_layer True] ex_remote_layer_simps by blast
    then show False unfolding e by simp
  qed
  show ?thesis
    using C5_fetchRemoteData_skips [of "hide ex_remote_layer" True None]
      C5_fetchRemoteData_skips [of ex_remote_layer False None]
      C5_fetchRemoteData_skips [of ex_remote_layer True None]
      ex_remote_layer_simps ne
    by simp
qed

section \<open>The property index\<close>

lemma indexOf_ge: "- 1 \<le> indexOf xs x"
  by (induction xs) (auto simp: Let_def)

lemma indexOf_0_iff: "indexOf name (CHR ''_'') = 0 \<longleftrightarrow> reserved name"
proof (cases name)
  case Nil
  then show ?thesis by (simp add: reserved_def)
next
  case (Cons c cs)
  have "- 1 \<le> indexOf cs (CHR ''_'')" by (rule indexOf_ge)
  then show ?thesis using Cons by (auto simp: reserved_def Let_def)
qed

lemma indexProperty_index:
  "m_propertiesIndex (indexProperty name L) =
     (if name \<noteq> [] \<and> \<not> reserved name \<and> name \<notin> set (m_propertiesIndex L)
      then sort (m_propertiesIndex L @ [name]) else m_propertiesIndex L)"
  by (simp add: indexProperty_def indexOf_0_iff)

lemma indexProperty_set:
  "set (m_propertiesIndex (indexProperty name L)) =
     set (m_propertiesIndex L) \<union> (if name \<noteq> [] \<and> \<not> reserved name then {name} else {})"
  by (auto simp: indexProperty_index)

lemma indexProperty_sorted:
  "sorted (m_propertiesIndex L) \<and> distinct (m_propertiesIndex L)
    \<Longrightarrow> sorted (m_propertiesIndex (indexProperty name L))
        \<and> distinct (m_propertiesIndex (indexProperty name L))"
  by (simp add: indexProperty_index)

lemma index_fold_set:
  "set (m_propertiesIndex (fold (\<lambda>i L'. if P i then indexProperty i L' else L') ks L)) =
     set (m_propertiesIndex L) \<union> {n \<in> set ks. P n \<and> n \<noteq> [] \<and> \<not> reserved n}"
proof (induction ks arbitrary: L)
  case Nil
  show ?case by simp
next
  case (Cons k ks)
  show ?case
  proof (cases "P k")
    case True
    then show ?thesis using Cons.IH [of "indexProperty k L"]
      by (auto simp: indexProperty_set split: if_splits)
  next
    case False
    then show ?thesis using Cons.IH [of L] by auto
  qed
qed

lemma index_fold_sorted:
  "sorted (m_propertiesIndex L) \<and> distinct (m_propertiesIndex L)
    \<Longrightarrow> sorted (m_propertiesIndex (fold (\<lambda>i L'. if P i then indexProperty i L' else L') ks L))
      \<and> distinct (m_propertiesIndex (fold (\<lambda>i L'. if P i then indexProperty i L' else L') ks L))"
proof (induction ks arbitrary: L)
  case Nil
  then show ?case by simp
next
  case (Cons k ks)
  show ?case
  proof (cases "P k")
    case True
    have "sorted (m_propertiesIndex (indexProperty k L))
        \<and> distinct (m_propertiesIndex (indexProperty k L))"
      using Cons.prems by (rule indexProperty_sorted)
    then show ?thesis using Cons.IH [of "indexProperty k L"] True by simp
  next
    case False
    then show ?thesis using Cons.IH [of L] Cons.prems by simp
  qed
qed

lemma typeof_scalar: "typeof (Some v) \<noteq> Tobject \<longleftrightarrow> scalar v"
  by (cases v) (simp_all add: scalar_def)

lemma scalar_names:
  "{n \<in> set (map fst props). typeof (map_of props n) \<noteq> Tobject \<and> n \<noteq> [] \<and> \<not> reserved n}
     = {n. n \<noteq> [] \<and> \<not> reserved n \<and> (\<exists>v. map_of props n = Some v \<and> scalar v)}"
proof (intro set_eqI iffI)
  fix n
  assume "n \<in> {n \<in> set (map fst props). typeof (map_of props n) \<noteq> Tobject \<and> n \<noteq> [] \<and> \<not> reserved n}"
  then have k: "n \<in> fst ` set props" and t: "typeof (map_of props n) \<noteq> Tobject"
    and r: "n \<noteq> []" "\<not> reserved n" by auto
  from k obtain v where v: "map_of props n = Some v"
    by (metis domIff dom_map_of_conv_image_fst not_Some_eq)
  with t have "scalar v" by (simp add: typeof_scalar)
  with v r show "n \<in> {n. n \<noteq> [] \<and> \<not> reserved n \<and> (\<exists>v. map_of props n = Some v \<and> scalar v)}"
    by blast
next
  fix n
  assume "n \<in> {n. n \<noteq> [] \<and> \<not> reserved n \<and> (\<exists>v. map_of props n = Some v \<and> scalar v)}"
  then obtain v where r: "n \<noteq> []" "\<not> reserved n" and v: "map_of props n = Some v" and s: "scalar v"
    by blast
  from v have "n \<in> fst ` set props" by (metis domI dom_map_of_conv_image_fst)
  moreover have "typeof (map_of props n) \<noteq> Tobject" using v s by (simp add: typeof_scalar)
  ultimately show "n \<in> {n \<in> set (map fst props). typeof (map_of props n) \<noteq> Tobject \<and> n \<noteq> [] \<and> \<not> reserved n}"
    using r by simp
qed

lemma addFeature_propertiesIndex:
  "m_propertiesIndex (addFeature f L) =
     m_propertiesIndex (fold (\<lambda>i L'. if typeof (map_of (properties f) i) \<noteq> Tobject
                    then indexProperty i L' else L') (map fst (properties f))
        (L\<lparr>m_index := m_index L @ [stamp f],
           m_features := AList.update (stamp f) f (m_features L)\<rparr>))"
  by (simp add: addFeature_def indexProperties_def Let_def)

text \<open>
  C7, counterexample. A feature whose only property has the empty name and a string
  value: the name is not reserved and the value is a scalar, yet nothing is indexed.
\<close>

theorem C7_empty_name_not_indexed:
  "scalar (JStr ''x'') \<and> \<not> reserved ''''
   \<and> m_propertiesIndex (addFeature (ex_feature 7 [('''', JStr ''x'')]) ex_layer) = []"
  by (simp add: scalar_def reserved_def addFeature_propertiesIndex indexProperty_index
      ex_feature_def ex_layer_def)

text \<open>
  C7, as the code has it. Adding a feature indexes exactly those of its property names
  that are not empty, do not start with an underscore and have a scalar value; and a
  property index that is sorted and free of duplicates stays so. (The witness is the
  feature of the specification: of \<open>name\<close>, \<open>geo\<close> and \<open>_internal\<close> only \<open>name\<close> is
  indexed.)
\<close>

theorem C7_indexed_names:
  "set (m_propertiesIndex (addFeature f L)) =
     set (m_propertiesIndex L)
     \<union> {n. n \<noteq> [] \<and> \<not> reserved n \<and> (\<exists>v. map_of (properties f) n = Some v \<and> scalar v)}
   \<and> (sorted (m_propertiesIndex L) \<and> distinct (m_propertiesIndex L) \<longrightarrow>
        sorted (m_propertiesIndex (addFeature f L)) \<and> distinct (m_propertiesIndex (addFeature f L)))"
proof (intro conjI impI)
  show "set (m_propertiesIndex (addFeature f L)) =
     set (m_propertiesIndex L)
     \<union> {n. n \<noteq> [] \<and> \<not> reserved n \<and> (\<exists>v. map_of (properties f) n = Some v \<and> scalar v)}"
    unfolding addFeature_propertiesIndex index_fold_set scalar_names by simp
next
  assume "sorted (m_propertiesIndex L) \<and> distinct (m_propertiesIndex L)"
  then show "sorted (m_propertiesIndex (addFeature f L))"
    and "distinct (m_propertiesIndex (addFeature f L))"
    unfolding addFeature_propertiesIndex
    using index_fold_sorted [of "L\<lparr>m_index := m_index L @ [stamp f],
           m_features := AList.update (stamp f) f (m_features L)\<rparr>"]
    by simp_all
qed

lemma ex_properties_index:
  "m_propertiesIndex (addFeature (ex_feature 7 ex_properties) ex_layer) = [''name'']"
  by (simp add: addFeature_propertiesIndex indexProperty_index reserved_def
      ex_feature_def ex_layer_def ex_properties_def)

theorem C7_indexed_names_witness:
  "m_propertiesIndex (addFeature (ex_feature 7 ex_properties) ex_layer) = [''name'']
   \<and> {n. n \<noteq> [] \<and> \<not> reserved n \<and> (\<exists>v. map_of ex_properties n = Some v \<and> scalar v)} = {''name''}
   \<and> sorted (m_propertiesIndex (addFeature (ex_feature 7 ex_properties) ex_layer))
   \<and> distinct (m_propertiesIndex (addFeature (ex_feature 7 ex_properties) ex_layer))
   \<and> sorted (m_propertiesIndex (addFeature (ex_feature 8 [(''color'', JStr ''red'')])
        (addFeature (ex_feature 7 ex_properties) ex_layer)))
   \<and> set (m_propertiesIndex (addFeature (ex_feature 8 [(''color'', JStr ''red'')])
        (addFeature (ex_feature 7 ex_properties) ex_layer))) = {''name'', ''color''}"
proof -
  have p: "properties (ex_feature 7 ex_properties) = ex_properties"
    "properties (ex_feature 8 [(''color'', JStr ''red'')]) = [(''color'', JStr ''red'')]"
    by (simp_all add: ex_feature_def)
  have e: "m_propertiesIndex ex_layer = []" by (simp add: ex_layer_def)
  have c: "{n. n \<noteq> [] \<and> \<not> reserved n \<and> (\<exists>v. map_of [(''color'', JStr ''red'')] n = Some v \<and> scalar v)}
      = {''color''}"
    by (auto simp: scalar_def reserved_def split: if_splits)
  note a = C7_indexed_names [of "ex_feature 7 ex_properties" ex_layer]
  note b = C7_indexed_names [of "ex_feature 8 [(''color'', JStr ''red'')]"
      "addFeature (ex_feature 7 ex_properties) ex_layer"]
  from a have s1: "{n. n \<noteq> [] \<and> \<not> reserved n \<and> (\<exists>v. map_of ex_properties n = Some v \<and> scalar v)} = {''name''}"
    unfolding p e ex_properties_index by simp
  from a have s2: "sorted (m_propertiesIndex (addFeature (ex_feature 7 ex_properties) ex_layer))"
    "distinct (m_propertiesIndex (addFeature (ex_feature 7 ex_properties) ex_layer))"
    unfolding e by simp_all
  from b s2 have s3: "sorted (m_propertiesIndex (addFeature (ex_feature 8 [(''color'', JStr ''red'')])
        (addFeature (ex_feature 7 ex_properties) ex_layer)))" by simp
  from b have s4: "set (m_propertiesIndex (addFeature (ex_feature 8 [(''color'', JStr ''red'')])
        (addFeature (ex_feature 7 ex_properties) ex_layer))) = {''name'', ''color''}"
    unfolding p c ex_properties_index by auto
  from ex_properties_index s1 s2 s3 s4 show ?thesis by simp
qed

section \<open>The order sequence and the feature map\<close>

lemma indexOf_absent: "x \<notin> set xs \<Longrightarrow> indexOf xs x = - 1"
  by (induction xs) (auto simp: Let_def)

lemma indexOf_present:
  "x \<in> set xs \<Longrightarrow> 0 \<le> indexOf xs x \<and> indexOf xs x < int (length xs)"
  by (induction xs) (auto simp: Let_def)

lemma splice1_indexOf:
  "x \<in> set xs \<Longrightarrow> splice1 (indexOf xs x) xs = remove1 x xs"
proof (induction xs)
  case Nil
  then show ?case by simp
next
  case (Cons y ys)
  show ?case
  proof (cases "y = x")
    case True
    then show ?thesis by (simp add: splice1_def)
  next
    case False
    with Cons.prems have mem: "x \<in> set ys" by simp
    then have r: "0 \<le> indexOf ys x" "indexOf ys x < int (length ys)"
      using indexOf_present [of x ys] by simp_all
    then have i: "indexOf (y # ys) x = indexOf ys x + 1"
      using False by (simp add: Let_def)
    have "splice1 (indexOf ys x + 1) (y # ys) = y # splice1 (indexOf ys x) ys"
      using r by (simp add: splice1_def Let_def nat_add_distrib)
    then show ?thesis using i Cons.IH [OF mem] False by simp
  qed
qed

lemma splice1_absent: "x \<notin> set xs \<Longrightarrow> splice1 (indexOf xs x) xs = butlast xs"
proof (cases "xs = []")
  case True
  then show ?thesis by (simp add: splice1_def)
next
  case False
  assume "x \<notin> set xs"
  then have i: "indexOf xs x = - 1" by (rule indexOf_absent)
  have n: "nat (int (length xs) - 1) = length xs - 1" by simp
  have "0 < length xs" using False by simp
  then have d: "Suc (length xs - 1) = length xs" by simp
  show ?thesis
    unfolding i splice1_def Let_def using False
    by (simp add: n d butlast_conv_take del: of_nat_diff)
qed

text \<open>The invariant holds on an emptied layer, and the two operations keep it when they
  are given what they expect: a feature that is not in the layer yet to add, a feature of
  the layer to remove.\<close>

lemma index_consistent_clear: "index_consistent (clear L)"
  by (simp add: index_consistent_def clear_eq)

lemma index_consistent_addFeature:
  "index_consistent L \<Longrightarrow> stamp f \<notin> set (m_index L) \<Longrightarrow> index_consistent (addFeature f L)"
  by (auto simp: index_consistent_def addFeature_fields dom_update)

lemma index_consistent_removeFeature:
  "index_consistent L \<Longrightarrow> stamp f \<in> set (m_index L)
    \<Longrightarrow> index_consistent (removeFeature f L)"
proof -
  assume c: "index_consistent L" and m: "stamp f \<in> set (m_index L)"
  have i: "m_index (removeFeature f L) = remove1 (stamp f) (m_index L)"
    using m by (simp add: removeFeature_def Let_def splice1_indexOf)
  have fs: "m_features (removeFeature f L) = AList.delete (stamp f) (m_features L)"
    by (simp add: removeFeature_def Let_def)
  have "fst ` set (AList.delete (stamp f) (m_features L)) = fst ` set (m_features L) - {stamp f}"
    by (simp add: AList.delete_eq) force
  then show ?thesis
    using c unfolding index_consistent_def i fs by (simp add: set_remove1_eq)
qed

text \<open>
  C9, at the failing input. A layer holds the feature 7 only; \<^verbatim>\<open>removeFeature\<close> is
  called with the feature 9, which is not in the layer. \<^verbatim>\<open>indexOf\<close> answers \<open>-1\<close>,
  \<^verbatim>\<open>splice(-1, 1)\<close> removes the last id of the order sequence, and the feature map
  keeps its key: the sequence is empty while the map still holds 7. Adding the feature 7
  a second time leaves its id twice in the sequence.
\<close>

theorem C9_index_diverges:
  "index_consistent (addFeature (ex_feature 7 []) ex_layer)
   \<and> m_index (removeFeature (ex_feature 9 []) (addFeature (ex_feature 7 []) ex_layer)) = []
   \<and> map fst (m_features (removeFeature (ex_feature 9 []) (addFeature (ex_feature 7 []) ex_layer)))
       = [7]
   \<and> \<not> index_consistent (removeFeature (ex_feature 9 []) (addFeature (ex_feature 7 []) ex_layer))
   \<and> m_index (addFeature (ex_feature 7 []) (addFeature (ex_feature 7 []) ex_layer)) = [7, 7]
   \<and> \<not> index_consistent (addFeature (ex_feature 7 []) (addFeature (ex_feature 7 []) ex_layer))"
  by (simp add: index_consistent_def removeFeature_def addFeature_fields splice1_def
      ex_feature_def ex_layer_def stamp_def Let_def)

section \<open>Steps of a save\<close>

lemma updateOptions_frame:
  "\<exists>rq ld ly om. updateOptions opts L = L\<lparr>umap := (umap L)\<lparr>requests := requests (umap L) @ rq\<rparr>,
        m_loading := ld, options := assign (options L) opts, layer := ly, onMap := om\<rparr>
     \<and> (m_loading L \<longrightarrow> ld \<and> rq = []) \<and> (isLoaded L \<longrightarrow> ld = m_loading L \<and> rq = [])"
proof -
  let ?L1 = "L\<lparr>options := assign (options L) opts\<rparr>"
  obtain rq ld ly om where r: "resetLayer False ?L1 = ?L1\<lparr>umap := (umap ?L1)\<lparr>requests := requests (umap ?L1) @ rq\<rparr>,
        m_loading := ld, layer := ly, onMap := om\<rparr>"
    and m: "m_loading ?L1 \<longrightarrow> ld \<and> rq = []" and l: "isLoaded ?L1 \<longrightarrow> ld = m_loading ?L1 \<and> rq = []"
    using resetLayer_frame [of False ?L1] by blast
  have il: "isLoaded ?L1 = isLoaded L" by (rule isLoaded_cong) simp_all
  have "updateOptions opts L = L\<lparr>umap := (umap L)\<lparr>requests := requests (umap L) @ rq\<rparr>,
        m_loading := ld, options := assign (options L) opts, layer := ly, onMap := om\<rparr>"
    unfolding updateOptions_def r by simp
  moreover have "m_loading L \<longrightarrow> ld \<and> rq = []" using m by simp
  moreover have "isLoaded L \<longrightarrow> ld = m_loading L \<and> rq = []" using l il by simp
  ultimately show ?thesis by blast
qed

lemma updateOptions_fields:
  "m_isDirty (updateOptions opts L) = m_isDirty L"
  "m_isDeleted (updateOptions opts L) = m_isDeleted L"
  "m_loaded (updateOptions opts L) = m_loaded L"
  "m_dataloaded (updateOptions opts L) = m_dataloaded L"
  "m_referenceVersion (updateOptions opts L) = m_referenceVersion L"
  "m_geojson (updateOptions opts L) = m_geojson L"
  "m_geojson_bk (updateOptions opts L) = m_geojson_bk L"
  "m_index (updateOptions opts L) = m_index L"
  "m_features (updateOptions opts L) = m_features L"
  "m_propertiesIndex (updateOptions opts L) = m_propertiesIndex L"
  "options (updateOptions opts L) = assign (options L) opts"
  "m_backupOptions (updateOptions opts L) = m_backupOptions L"
  "layer_id (updateOptions opts L) = layer_id L"
  "conflicts (umap (updateOptions opts L)) = conflicts (umap L)"
  "saveAll_calls (umap (updateOptions opts L)) = saveAll_calls (umap L)"
  "datalayers (umap (updateOptions opts L)) = datalayers (umap L)"
  "datalayersIndex (umap (updateOptions opts L)) = datalayersIndex (umap L)"
  "lastId (umap (updateOptions opts L)) = lastId (umap L)"
proof -
  obtain rq ld ly om where e: "updateOptions opts L = L\<lparr>umap := (umap L)\<lparr>requests := requests (umap L) @ rq\<rparr>,
        m_loading := ld, options := assign (options L) opts, layer := ly, onMap := om\<rparr>"
    using updateOptions_frame by blast
  show "m_isDirty (updateOptions opts L) = m_isDirty L"
  "m_isDeleted (updateOptions opts L) = m_isDeleted L"
  "m_loaded (updateOptions opts L) = m_loaded L"
  "m_dataloaded (updateOptions opts L) = m_dataloaded L"
  "m_referenceVersion (updateOptions opts L) = m_referenceVersion L"
  "m_geojson (updateOptions opts L) = m_geojson L"
  "m_geojson_bk (updateOptions opts L) = m_geojson_bk L"
  "m_index (updateOptions opts L) = m_index L"
  "m_features (updateOptions opts L) = m_features L"
  "m_propertiesIndex (updateOptions opts L) = m_propertiesIndex L"
  "options (updateOptions opts L) = assign (options L) opts"
  "m_backupOptions (updateOptions opts L) = m_backupOptions L"
  "layer_id (updateOptions opts L) = layer_id L"
  "conflicts (umap (updateOptions opts L)) = conflicts (umap L)"
  "saveAll_calls (umap (updateOptions opts L)) = saveAll_calls (umap L)"
  "datalayers (umap (updateOptions opts L)) = datalayers (umap L)"
  "datalayersIndex (umap (updateOptions opts L)) = datalayersIndex (umap L)"
  "lastId (umap (updateOptions opts L)) = lastId (umap L)"
    unfolding e by simp_all
qed

lemma updateOptions_loading: "m_loading L \<Longrightarrow> m_loading (updateOptions opts L)"
  using updateOptions_frame [of opts L] by auto


lemma updateOptions_loaded_requests:
  "isLoaded L \<Longrightarrow> requests (umap (updateOptions opts L)) = requests (umap L)"
  "isLoaded L \<Longrightarrow> m_loading (updateOptions opts L) = m_loading L"
  using updateOptions_frame [of opts L] by auto

lemma redraw_loaded: "m_loaded L \<Longrightarrow> redraw L = L"
  by (simp add: redraw_def isVisible_def show_start_def hide_def isLoaded_def Let_def)

text \<open>The state after the block \<^verbatim>\<open>if (data.geojson)\<close> of \<^verbatim>\<open>_trySave\<close>.\<close>

lemma absorb_geojson_fields:
  "m_isDirty (absorb_geojson d L) = m_isDirty L"
  "m_isDeleted (absorb_geojson d L) = m_isDeleted L"
  "m_loading (absorb_geojson d L) = m_loading L"
  "m_loaded (absorb_geojson d L) = m_loaded L"
  "m_referenceVersion (absorb_geojson d L) = m_referenceVersion L"
  "options (absorb_geojson d L) = options L"
  "layer_id (absorb_geojson d L) = layer_id L"
  "requests (umap (absorb_geojson d L)) = requests (umap L)"
  "conflicts (umap (absorb_geojson d L)) = conflicts (umap L)"
  "saveAll_calls (umap (absorb_geojson d L)) = saveAll_calls (umap L)"
  "datalayers (umap (absorb_geojson d L)) = datalayers (umap L)"
  "datalayersIndex (umap (absorb_geojson d L)) = datalayersIndex (umap L)"
  by (simp_all add: absorb_geojson_def fromGeoJSON_fields clear_eq split: option.splits)

lemma p_trySave_error:
  "r_error rp \<Longrightarrow> p_trySave url hs fd rp L =
     (Return None,
      if (case r_response rp of Some r \<Rightarrow> h_status r = 412 | None \<Rightarrow> False)
      then raise_conflict \<lparr>rt_url = url, rt_formData = fd\<rparr> (send (ServerPost url hs (Some fd)) L)
      else send (ServerPost url hs (Some fd)) L)"
  by (simp add: p_trySave_def Let_def split: option.splits)

lemma p_trySave_success_eq:
  assumes "\<not> r_error rp" "r_data rp \<noteq> JNull" "r_response rp = Some r"
  shows "p_trySave url hs fd rp L =
    (Return (Some True),
     (connectToMap (backupData (backupOptions (setReferenceVersion r
        (updateOptions
           (AList.delete ''_referenceVersion'' (AList.delete ''id''
              (if truthy (map_of (members (r_data rp)) ''geojson'')
               then AList.delete ''geojson'' (members (r_data rp)) else members (r_data rp))))
           (absorb_geojson (members (r_data rp)) (send (ServerPost url hs (Some fd)) L)))))))
      \<lparr>m_loaded := True\<rparr>)"
  using assms by (simp add: p_trySave_def Let_def redraw_loaded)

lemma connectToMap_fields:
  "m_isDirty (connectToMap L) = m_isDirty L"
  "m_isDeleted (connectToMap L) = m_isDeleted L"
  "m_loading (connectToMap L) = m_loading L"
  "m_referenceVersion (connectToMap L) = m_referenceVersion L"
  "m_backupOptions (connectToMap L) = m_backupOptions L"
  "options (connectToMap L) = options L"
  "m_geojson (connectToMap L) = m_geojson L"
  "m_geojson_bk (connectToMap L) = m_geojson_bk L"
  "m_index (connectToMap L) = m_index L"
  "m_features (connectToMap L) = m_features L"
  "layer_id (connectToMap L) = layer_id L"
  "requests (umap (connectToMap L)) = requests (umap L)"
  "conflicts (umap (connectToMap L)) = conflicts (umap L)"
  "saveAll_calls (umap (connectToMap L)) = saveAll_calls (umap L)"
  "i = layer_id L \<Longrightarrow> i \<in> datalayers (umap (connectToMap L))"
  by (simp_all add: connectToMap_def Let_def)

lemma p_trySave_success:
  assumes "\<not> r_error rp" "r_data rp \<noteq> JNull" "r_response rp = Some r"
  shows "fst (p_trySave url hs fd rp L) = Return (Some True)"
    and "m_referenceVersion (snd (p_trySave url hs fd rp L)) = h_version r"
    and "m_isDirty (snd (p_trySave url hs fd rp L)) = m_isDirty L"
    and "m_isDeleted (snd (p_trySave url hs fd rp L)) = m_isDeleted L"
    and "m_loaded (snd (p_trySave url hs fd rp L))"
    and "m_backupOptions (snd (p_trySave url hs fd rp L)) = options (snd (p_trySave url hs fd rp L))"
    and "m_geojson_bk (snd (p_trySave url hs fd rp L)) = m_geojson (snd (p_trySave url hs fd rp L))"
    and "conflicts (umap (snd (p_trySave url hs fd rp L))) = conflicts (umap L)"
    and "saveAll_calls (umap (snd (p_trySave url hs fd rp L))) = saveAll_calls (umap L)"
    and "layer_id (snd (p_trySave url hs fd rp L)) = layer_id L"
    and "layer_id L \<in> datalayers (umap (snd (p_trySave url hs fd rp L)))"
    and "m_features (snd (p_trySave url hs fd rp L))
           = m_features (absorb_geojson (members (r_data rp)) (send (ServerPost url hs (Some fd)) L))"
    and "m_index (snd (p_trySave url hs fd rp L))
           = m_index (absorb_geojson (members (r_data rp)) (send (ServerPost url hs (Some fd)) L))"
    and "m_geojson (snd (p_trySave url hs fd rp L))
           = m_geojson (absorb_geojson (members (r_data rp)) (send (ServerPost url hs (Some fd)) L))"
  unfolding p_trySave_success_eq [OF assms]
  by (simp_all add: connectToMap_fields backupData_def
      backupOptions_def setReferenceVersion_def updateOptions_fields absorb_geojson_fields send_def)

lemma p_trySave_success_requests:
  assumes "\<not> r_error rp" "r_data rp \<noteq> JNull" "r_response rp = Some r"
  shows "\<exists>rq. requests (umap (snd (p_trySave url hs fd rp L)))
            = requests (umap L) @ ServerPost url hs (Some fd) # rq
          \<and> (isLoaded L \<longrightarrow> rq = [])"
proof -
  let ?L2 = "absorb_geojson (members (r_data rp)) (send (ServerPost url hs (Some fd)) L)"
  let ?o = "AList.delete ''_referenceVersion'' (AList.delete ''id''
              (if truthy (map_of (members (r_data rp)) ''geojson'')
               then AList.delete ''geojson'' (members (r_data rp)) else members (r_data rp)))"
  obtain rq ld ly om where u: "updateOptions ?o ?L2 = ?L2\<lparr>umap := (umap ?L2)\<lparr>requests := requests (umap ?L2) @ rq\<rparr>,
        m_loading := ld, options := assign (options ?L2) ?o, layer := ly, onMap := om\<rparr>"
    and l: "isLoaded ?L2 \<longrightarrow> ld = m_loading ?L2 \<and> rq = []"
    using updateOptions_frame [of ?o ?L2] by blast
  have il: "isLoaded ?L2 = isLoaded L"
    by (rule isLoaded_cong) (simp_all add: absorb_geojson_fields send_def)
  have "requests (umap (snd (p_trySave url hs fd rp L)))
      = requests (umap L) @ ServerPost url hs (Some fd) # rq"
    unfolding p_trySave_success_eq [OF assms] u
    by (simp add: connectToMap_fields backupData_def backupOptions_def setReferenceVersion_def
        absorb_geojson_fields send_def)
  with l il show ?thesis by blast
qed

lemma save_upsert:
  "\<not> m_isDeleted L \<Longrightarrow> isLoaded L \<Longrightarrow> umapGeoJSON L = Return g \<Longrightarrow>
     save rp L = (case p_trySave (saveURL L) (save_headers L) (save_formData L g) rp L of
                    (Throw e, L1) \<Rightarrow> (Throw e, L1)
                  | (Return status, L1) \<Rightarrow> (Return status, L1\<lparr>m_geojson := Some g\<rparr>))"
  by (simp add: save_def)

lemma save_upsert_success:
  assumes "\<not> m_isDeleted L" "isLoaded L" "umapGeoJSON L = Return g"
    and "\<not> r_error rp" "r_data rp \<noteq> JNull" "r_response rp = Some r"
  shows "save rp L = (Return (Some True),
     (snd (p_trySave (saveURL L) (save_headers L) (save_formData L g) rp L))\<lparr>m_geojson := Some g\<rparr>)"
proof -
  have "fst (p_trySave (saveURL L) (save_headers L) (save_formData L g) rp L) = Return (Some True)"
    using assms(4-6) by (rule p_trySave_success)
  then show ?thesis
    unfolding save_upsert [OF assms(1-3)]
    by (cases "p_trySave (saveURL L) (save_headers L) (save_formData L g) rp L") simp
qed

section \<open>Materializing a collection\<close>

lemma update_fresh: "k \<notin> fst ` set al \<Longrightarrow> AList.update k v al = al @ [(k, v)]"
  by (induction al) auto

lemma makeFeature_loop_materialize:
  "JNull \<notin> set xs \<Longrightarrow> (\<forall>k \<in> fst ` set (m_features L). k \<le> lastId (umap L)) \<Longrightarrow>
     fst (makeFeature_loop xs L) = None
     \<and> m_index (snd (makeFeature_loop xs L))
         = m_index L @ map stamp (materialize (lastId (umap L)) xs)
     \<and> m_features (snd (makeFeature_loop xs L))
         = m_features L @ map (\<lambda>f. (stamp f, f)) (materialize (lastId (umap L)) xs)"
proof (induction xs arbitrary: L)
  case Nil
  show ?case by simp
next
  case (Cons x xs)
  from Cons.prems have x: "x \<noteq> JNull" and xs: "JNull \<notin> set xs" by auto
  show ?case
  proof (cases "feature_class_of (geometry_of x)")
    case None
    then have mk: "makeFeature x L = (None, L)" using x by (simp add: makeFeature_def)
    show ?thesis using Cons.IH [OF xs Cons.prems(2)] None mk by simp
  next
    case (Some c)
    let ?n = "lastId (umap L)"
    let ?f = "\<lparr>leaflet_id = Suc ?n, f_class = c, f_geometry = geometry_of x,
          properties = properties_of x\<rparr>"
    let ?L1 = "addFeature ?f (L\<lparr>umap := (umap L)\<lparr>lastId := Suc ?n\<rparr>\<rparr>)"
    have mk: "makeFeature x L = (None, ?L1)"
      using x Some by (simp add: makeFeature_def Let_def)
    have fresh: "Suc ?n \<notin> fst ` set (m_features L)"
      using Cons.prems(2) by fastforce
    have st: "stamp ?f = Suc ?n" by (simp add: stamp_def)
    have i1: "m_index ?L1 = m_index L @ [Suc ?n]"
      unfolding addFeature_fields st by simp
    have f1: "m_features ?L1 = m_features L @ [(Suc ?n, ?f)]"
      unfolding addFeature_fields st using fresh by (simp add: update_fresh)
    have u1: "lastId (umap ?L1) = Suc ?n"
      unfolding addFeature_fields by simp
    have b1: "\<forall>k \<in> fst ` set (m_features ?L1). k \<le> lastId (umap ?L1)"
      unfolding f1 u1 using Cons.prems(2) by fastforce
    note ih = Cons.IH [OF xs b1]
    show ?thesis
      using ih Some unfolding u1 i1 f1 by (simp add: mk st)
  qed
qed

lemma makeFeatures_collection:
  "feature_collection g xs \<Longrightarrow>
     makeFeatures g L = makeFeature_loop (sortFeatures_json (umap L) xs) L"
proof -
  assume c: "feature_collection g xs"
  then obtain kvs where g: "g = JObj kvs" by (cases g) (simp_all add: feature_collection_def)
  show ?thesis using c unfolding g by (simp add: feature_collection_def makeFeatures_def)
qed

text \<open>Materializing a feature collection with no \<^verbatim>\<open>null\<close> element on an emptied layer:
  the layer holds exactly the features the collection describes.\<close>

lemma fromGeoJSON_clear_collection:
  assumes "feature_collection g xs" "JNull \<notin> set (sortFeatures_json (umap L) xs)"
  shows "m_index (fromGeoJSON g (clear L))
           = map stamp (materialize (lastId (umap L)) (sortFeatures_json (umap L) xs))"
    and "m_features (fromGeoJSON g (clear L))
           = map (\<lambda>f. (stamp f, f)) (materialize (lastId (umap L)) (sortFeatures_json (umap L) xs))"
proof -
  have u: "umap (clear L) = umap L" by (simp add: clear_eq)
  have e: "m_features (clear L) = []" "m_index (clear L) = []" by (simp_all add: clear_eq)
  have b: "\<forall>k \<in> fst ` set (m_features (clear L)). k \<le> lastId (umap (clear L))"
    unfolding e by simp
  have n: "JNull \<notin> set (sortFeatures_json (umap (clear L)) xs)" using assms(2) u by simp
  note m = makeFeature_loop_materialize [OF n b]
  have f: "fromGeoJSON g (clear L)
      = (snd (makeFeature_loop (sortFeatures_json (umap (clear L)) xs) (clear L)))
          \<lparr>m_geojson := Some g, m_dataloaded := True\<rparr>"
    by (simp add: fromGeoJSON_def addData_def onDataLoaded_def makeFeatures_collection [OF assms(1)])
  show "m_index (fromGeoJSON g (clear L))
           = map stamp (materialize (lastId (umap L)) (sortFeatures_json (umap L) xs))"
    unfolding f using m by (simp add: u e)
  show "m_features (fromGeoJSON g (clear L))
           = map (\<lambda>f. (stamp f, f)) (materialize (lastId (umap L)) (sortFeatures_json (umap L) xs))"
    unfolding f using m by (simp add: u e)
qed

lemma index_consistent_materialized:
  assumes "feature_collection g xs" "JNull \<notin> set (sortFeatures_json (umap L) xs)"
  shows "set (m_index (fromGeoJSON g (clear L))) = fst ` set (m_features (fromGeoJSON g (clear L)))"
  unfolding fromGeoJSON_clear_collection [OF assms] by (simp add: image_image)

section \<open>What a save does\<close>

lemma ex_layer_save_simps:
  "\<not> m_isDeleted ex_layer" "isLoaded ex_layer" "umapGeoJSON ex_layer = Return ex_snapshot"
  "\<not> hasDataLoaded ex_layer" "m_referenceVersion ex_layer = None" "m_isDirty ex_layer"
  "requests (umap ex_layer) = []" "saveURL ex_layer = Datalayer_save None False"
  "save_headers ex_layer = []"
  by (simp_all add: ex_layer_def ex_umap_def isLoaded_def createdOnServer_def umapGeoJSON_def
      isRemoteLayer_def remoteData_def featuresToGeoJSON_def ex_snapshot_def DEFAULT_OPTIONS_def
      hasDataLoaded_def saveURL_def save_headers_def)

lemma ex_reply_ok_simps:
  "\<not> r_error ex_reply_ok" "r_data ex_reply_ok \<noteq> JNull" "r_data ex_reply_ok = JObj []"
  "r_response ex_reply_ok = Some \<lparr>h_status = 200, h_version = Some ''v1''\<rparr>"
  by (simp_all add: ex_reply_ok_def)

text \<open>
  C3, counterexample. The layer that was never saved is not deleted and its data were
  never loaded (\<^verbatim>\<open>_dataloaded\<close> is false), yet \<^verbatim>\<open>save()\<close> posts its snapshot and
  returns \<^verbatim>\<open>true\<close>.
\<close>

theorem C3_save_without_data_loaded:
  "\<not> m_isDeleted ex_layer \<and> \<not> hasDataLoaded ex_layer
   \<and> fst (save ex_reply_ok ex_layer) = Return (Some True)
   \<and> requests (umap (snd (save ex_reply_ok ex_layer)))
       = [ServerPost (Datalayer_save None False) [] (Some (save_formData ex_layer ex_snapshot))]"
proof -
  note s = save_upsert_success [OF ex_layer_save_simps(1-3) ex_reply_ok_simps(1,2,4)]
  obtain rq where "requests (umap (snd (p_trySave (saveURL ex_layer) (save_headers ex_layer)
        (save_formData ex_layer ex_snapshot) ex_reply_ok ex_layer)))
      = requests (umap ex_layer) @ ServerPost (saveURL ex_layer) (save_headers ex_layer)
          (Some (save_formData ex_layer ex_snapshot)) # rq" and "isLoaded ex_layer \<longrightarrow> rq = []"
    using p_trySave_success_requests [OF ex_reply_ok_simps(1,2,4)] by blast
  then show ?thesis
    unfolding s using ex_layer_save_simps by simp
qed

text \<open>
  C3, as the code has it. The guard of \<^verbatim>\<open>save()\<close> is \<^verbatim>\<open>isLoaded()\<close>: a layer that
  is not deleted, is on the server and whose metadata were not loaded is left as it is,
  no request is sent, and \<^verbatim>\<open>undefined\<close> is returned.
\<close>

theorem C3_save_not_loaded:
  "\<not> m_isDeleted L \<and> \<not> isLoaded L \<longrightarrow> save rp L = (Return None, L)"
  by (simp add: save_def)

theorem C3_save_not_loaded_witness:
  "\<not> m_isDeleted ex_saved_layer \<and> \<not> isLoaded ex_saved_layer
   \<and> save ex_reply_ok ex_saved_layer = (Return None, ex_saved_layer)"
  using C3_save_not_loaded [of ex_saved_layer ex_reply_ok]
  by (simp add: ex_saved_layer_def ex_layer_def isLoaded_def createdOnServer_def)


lemma send_fields:
  "lastId (umap (send rq L)) = lastId (umap L)"
  "sortFeatures_json (umap (send rq L)) = sortFeatures_json (umap L)"
  "m_geojson (send rq L) = m_geojson L"
  by (simp_all add: send_def)



lemma ex_collection_simps:
  "feature_collection ex_collection [ex_point, ex_circle]"
  "materialize 0 [ex_point, ex_circle] =
     [\<lparr>leaflet_id = 1, f_class = Point, f_geometry = JObj [(''type'', JStr ''Point'')],
        properties = [(''name'', JStr ''A'')]\<rparr>]"
  "JNull \<notin> set [ex_point, ex_circle]"
  by (simp_all add: feature_collection_def ex_collection_def ex_point_def ex_circle_def
      geometry_of_def feature_class_of_def properties_of_def)


section \<open>Conflicts\<close>


lemma set_isDirty_False: "set_isDirty False L = L\<lparr>m_isDirty := False, m_isDeleted := False\<rparr>"
  by (simp add: set_isDirty_def onDirty_def)








section \<open>Replacing the features of a remote layer\<close>

lemma fetchRemoteData_skip:
  "\<not> isRemoteLayer L \<or> (\<not> hasDynamicData L \<and> hasDataLoaded L \<and> \<not> force) \<or> \<not> isVisible L
    \<Longrightarrow> fetchRemoteData force resp L = L"
  by (auto simp: fetchRemoteData_def)

lemma fetchRemoteData_run:
  assumes "isRemoteLayer L" "isVisible L" "hasDynamicData L \<or> \<not> hasDataLoaded L \<or> force"
  shows "fetchRemoteData force resp L =
     (case resp of
        None \<Rightarrow> send (RequestGet (remote_url L)) L
      | Some r \<Rightarrow>
          if rr_ok r
          then (case formatter_parse (umap L) (rr_text r) (opt_member (remoteData L) ''format'') of
                  None \<Rightarrow> clear (send (RequestGet (remote_url L)) L)
                | Some g \<Rightarrow> fromGeoJSON g (clear (send (RequestGet (remote_url L)) L)))
          else send (RequestGet (remote_url L)) L)"
proof -
  have p: "formatter_parse (umap (clear (send (RequestGet (remote_url L)) L))) = formatter_parse (umap L)"
    and o: "remoteData (clear (send (RequestGet (remote_url L)) L)) = remoteData L"
    by (simp_all add: clear_eq send_def remoteData_def)
  have nd: "\<not> (\<not> hasDynamicData L \<and> hasDataLoaded L \<and> \<not> force)" using assms(3) by blast
  have nr: "\<not> \<not> isRemoteLayer L" and nv: "\<not> \<not> isVisible L" using assms(1,2) by simp_all
  show ?thesis
    unfolding fetchRemoteData_def if_not_P [OF nr] if_not_P [OF nd] if_not_P [OF nv] Let_def p o
    by (rule refl)
qed

lemma fetchRemoteData_failure:
  assumes "resp = None \<or> (\<exists>r. resp = Some r \<and> \<not> rr_ok r)"
  shows "fetchRemoteData force resp L = L
     \<or> fetchRemoteData force resp L = send (RequestGet (remote_url L)) L"
proof (cases "\<not> isRemoteLayer L \<or> (\<not> hasDynamicData L \<and> hasDataLoaded L \<and> \<not> force) \<or> \<not> isVisible L")
  case True
  then have "fetchRemoteData force resp L = L" by (rule fetchRemoteData_skip)
  then show ?thesis ..
next
  case False
  then have r: "isRemoteLayer L" "isVisible L" "hasDynamicData L \<or> \<not> hasDataLoaded L \<or> force"
    by blast+
  from assms have "fetchRemoteData force resp L = send (RequestGet (remote_url L)) L"
  proof
    assume "resp = None"
    then show ?thesis unfolding fetchRemoteData_run [OF r] by simp
  next
    assume "\<exists>r. resp = Some r \<and> \<not> rr_ok r"
    then obtain r where "resp = Some r" "\<not> rr_ok r" by blast
    then show ?thesis unfolding fetchRemoteData_run [OF r] by simp
  qed
  then show ?thesis ..
qed

lemma fetchRemoteData_ok:
  assumes "isRemoteLayer L" "isVisible L" "hasDynamicData L \<or> \<not> hasDataLoaded L \<or> force"
    and "rr_ok r"
  shows "fetchRemoteData force (Some r) L =
     (case formatter_parse (umap L) (rr_text r) (opt_member (remoteData L) ''format'') of
        None \<Rightarrow> clear (send (RequestGet (remote_url L)) L)
      | Some g \<Rightarrow> fromGeoJSON g (clear (send (RequestGet (remote_url L)) L)))"
  unfolding fetchRemoteData_run [OF assms(1-3)] using assms(4) by simp

lemma ex_remote_with_feature_simps:
  "options ex_remote_with_feature = options ex_remote_layer"
  "umap ex_remote_with_feature = umap ex_remote_layer"
  "layer ex_remote_with_feature = layer ex_remote_layer"
  "onMap ex_remote_with_feature = onMap ex_remote_layer"
  "m_index ex_remote_with_feature = [7]"
  unfolding ex_remote_with_feature_def
  using addFeature_frame [of "ex_feature 7 []" ex_remote_layer]
  by (auto simp: ex_remote_layer_def ex_saved_layer_def ex_layer_def ex_feature_def stamp_def)

lemma ex_remote_with_feature_remote:
  "isRemoteLayer ex_remote_with_feature" "isVisible ex_remote_with_feature"
  using ex_remote_layer_simps(1,2)
  unfolding isRemoteLayer_def isVisible_def remoteData_def ex_remote_with_feature_simps
  by simp_all

lemma ex_parsing_layer_simps:
  "isRemoteLayer ex_parsing_layer" "isVisible ex_parsing_layer"
  "lastId (umap ex_parsing_layer) = 7"
  "sortFeatures_json (umap ex_parsing_layer) = (\<lambda>xs. xs)"
  "formatter_parse (umap ex_parsing_layer) raw format = Some ex_collection"
  using ex_remote_with_feature_remote
  unfolding isRemoteLayer_def isVisible_def remoteData_def ex_parsing_layer_def
  by (simp_all add: ex_remote_with_feature_simps ex_remote_layer_def ex_saved_layer_def
      ex_layer_def ex_umap_def)

lemma ex_materialize_7:
  "materialize 7 [ex_point, ex_circle] =
     [\<lparr>leaflet_id = 8, f_class = Point, f_geometry = JObj [(''type'', JStr ''Point'')],
        properties = [(''name'', JStr ''A'')]\<rparr>]"
  by (simp add: ex_point_def ex_circle_def geometry_of_def feature_class_of_def properties_of_def)

text \<open>
  C6, counterexample. A visible remote layer holds the feature 7. The forced fetch gets
  an OK response whose body the parser rejects: the layer is left with no feature.
\<close>

theorem C6_parse_failure_empties_layer:
  "m_index ex_remote_with_feature = [7]
   \<and> rr_ok ex_bad_response
   \<and> formatter_parse (umap ex_remote_with_feature) (rr_text ex_bad_response)
        (opt_member (remoteData ex_remote_with_feature) ''format'') = None
   \<and> m_index (fetchRemoteData True (Some ex_bad_response) ex_remote_with_feature) = []
   \<and> m_features (fetchRemoteData True (Some ex_bad_response) ex_remote_with_feature) = []"
proof -
  note u = ex_remote_with_feature_simps(2) and i = ex_remote_with_feature_simps(5)
    and r = ex_remote_with_feature_remote
  have p: "formatter_parse (umap ex_remote_with_feature) (rr_text ex_bad_response)
        (opt_member (remoteData ex_remote_with_feature) ''format'') = None"
    unfolding u by (simp add: ex_remote_layer_def ex_saved_layer_def ex_umap_def)
  have k: "rr_ok ex_bad_response" by (simp add: ex_bad_response_def)
  have "fetchRemoteData True (Some ex_bad_response) ex_remote_with_feature
      = clear (send (RequestGet (remote_url ex_remote_with_feature)) ex_remote_with_feature)"
    using fetchRemoteData_ok [OF r _ k, of True] unfolding p by simp
  then show ?thesis using i p k by (simp add: clear_eq)
qed

text \<open>
  C6, as the code has it. When the transport gives no response or one that is not OK,
  the features and their order are as before. When the fetch is not skipped and the
  response is OK, the layer is emptied before the body is parsed: if the parser rejects
  the body the layer stays empty, and if it yields a feature collection the layer holds
  exactly the features that the collection describes.
\<close>

theorem C6_fetchRemoteData_replaces:
  "(resp = None \<or> (\<exists>r. resp = Some r \<and> \<not> rr_ok r) \<longrightarrow>
      m_features (fetchRemoteData force resp L) = m_features L
      \<and> m_index (fetchRemoteData force resp L) = m_index L)
   \<and> (isRemoteLayer L \<and> isVisible L \<and> (hasDynamicData L \<or> \<not> hasDataLoaded L \<or> force)
        \<and> rr_ok r \<longrightarrow>
      (formatter_parse (umap L) (rr_text r) (opt_member (remoteData L) ''format'') = None \<longrightarrow>
         m_features (fetchRemoteData force (Some r) L) = []
         \<and> m_index (fetchRemoteData force (Some r) L) = [])
      \<and> (\<forall>g xs. formatter_parse (umap L) (rr_text r) (opt_member (remoteData L) ''format'') = Some g
            \<and> feature_collection g xs \<and> JNull \<notin> set (sortFeatures_json (umap L) xs) \<longrightarrow>
         m_features (fetchRemoteData force (Some r) L)
           = map (\<lambda>f. (stamp f, f)) (materialize (lastId (umap L)) (sortFeatures_json (umap L) xs))
         \<and> m_index (fetchRemoteData force (Some r) L)
           = map stamp (materialize (lastId (umap L)) (sortFeatures_json (umap L) xs))))"
proof (intro conjI impI allI)
  assume f: "resp = None \<or> (\<exists>r. resp = Some r \<and> \<not> rr_ok r)"
  have e: "m_features (send (RequestGet (remote_url L)) L) = m_features L"
    "m_index (send (RequestGet (remote_url L)) L) = m_index L"
    by (simp_all add: send_def)
  from fetchRemoteData_failure [OF f, of force L] e
  show "m_features (fetchRemoteData force resp L) = m_features L"
    by (elim disjE) simp_all
  from fetchRemoteData_failure [OF f, of force L] e
  show "m_index (fetchRemoteData force resp L) = m_index L"
    by (elim disjE) simp_all
next
  assume a: "isRemoteLayer L \<and> isVisible L \<and> (hasDynamicData L \<or> \<not> hasDataLoaded L \<or> force)
        \<and> rr_ok r"
    and n: "formatter_parse (umap L) (rr_text r) (opt_member (remoteData L) ''format'') = None"
  have "fetchRemoteData force (Some r) L = clear (send (RequestGet (remote_url L)) L)"
    using fetchRemoteData_ok [of L force r] a unfolding n by simp
  then show "m_features (fetchRemoteData force (Some r) L) = []"
    and "m_index (fetchRemoteData force (Some r) L) = []"
    by (simp_all add: clear_eq)
next
  fix g xs
  assume a: "isRemoteLayer L \<and> isVisible L \<and> (hasDynamicData L \<or> \<not> hasDataLoaded L \<or> force)
        \<and> rr_ok r"
    and s: "formatter_parse (umap L) (rr_text r) (opt_member (remoteData L) ''format'') = Some g
            \<and> feature_collection g xs \<and> JNull \<notin> set (sortFeatures_json (umap L) xs)"
  then have p: "formatter_parse (umap L) (rr_text r) (opt_member (remoteData L) ''format'') = Some g"
    and c: "feature_collection g xs" by simp_all
  have e: "fetchRemoteData force (Some r) L
      = fromGeoJSON g (clear (send (RequestGet (remote_url L)) L))"
    using fetchRemoteData_ok [of L force r] a unfolding p by simp
  have n: "JNull \<notin> set (sortFeatures_json (umap (send (RequestGet (remote_url L)) L)) xs)"
    using s by (simp add: send_fields)
  note m = fromGeoJSON_clear_collection [OF c n]
  show "m_features (fetchRemoteData force (Some r) L)
           = map (\<lambda>f. (stamp f, f)) (materialize (lastId (umap L)) (sortFeatures_json (umap L) xs))"
    unfolding e using m(2) by (simp add: send_fields)
  show "m_index (fetchRemoteData force (Some r) L)
           = map stamp (materialize (lastId (umap L)) (sortFeatures_json (umap L) xs))"
    unfolding e using m(1) by (simp add: send_fields)
qed


theorem C6_fetchRemoteData_replaces_witness:
  "m_index (fetchRemoteData True None ex_remote_with_feature) = [7]
   \<and> m_index (fetchRemoteData True (Some ex_bad_response) ex_remote_with_feature) = []
   \<and> m_index (fetchRemoteData True (Some ex_bad_response) ex_parsing_layer) = [8]
   \<and> m_features (fetchRemoteData True (Some ex_bad_response) ex_parsing_layer) =
       [(8, \<lparr>leaflet_id = 8, f_class = Point, f_geometry = JObj [(''type'', JStr ''Point'')],
              properties = [(''name'', JStr ''A'')]\<rparr>)]"
proof -
  have k: "rr_ok ex_bad_response" by (simp add: ex_bad_response_def)
  have p: "formatter_parse (umap ex_remote_with_feature) (rr_text ex_bad_response)
        (opt_member (remoteData ex_remote_with_feature) ''format'') = None"
    unfolding ex_remote_with_feature_simps(2)
    by (simp add: ex_remote_layer_def ex_saved_layer_def ex_umap_def)
  note t1 = C6_fetchRemoteData_replaces [where resp = None and L = ex_remote_with_feature
      and force = True and r = ex_bad_response]
  have a: "m_index (fetchRemoteData True None ex_remote_with_feature) = [7]"
    using t1 ex_remote_with_feature_simps(5) by simp
  have b: "m_index (fetchRemoteData True (Some ex_bad_response) ex_remote_with_feature) = []"
    using t1 ex_remote_with_feature_remote k p by simp
  note t2 = C6_fetchRemoteData_replaces [where resp = None and L = ex_parsing_layer
      and force = True and r = ex_bad_response]
  have h: "isRemoteLayer ex_parsing_layer \<and> isVisible ex_parsing_layer
      \<and> (hasDynamicData ex_parsing_layer \<or> \<not> hasDataLoaded ex_parsing_layer \<or> True)
      \<and> rr_ok ex_bad_response"
    using ex_parsing_layer_simps(1,2) k by simp
  note q = t2 [THEN conjunct2, THEN mp, OF h, THEN conjunct2]
  from q [rule_format, of ex_collection "[ex_point, ex_circle]"]
  have c: "m_features (fetchRemoteData True (Some ex_bad_response) ex_parsing_layer)
           = map (\<lambda>f. (stamp f, f)) (materialize 7 [ex_point, ex_circle])
         \<and> m_index (fetchRemoteData True (Some ex_bad_response) ex_parsing_layer)
           = map stamp (materialize 7 [ex_point, ex_circle])"
    using ex_collection_simps(1,3) unfolding ex_parsing_layer_simps by simp
  from a b c show ?thesis unfolding ex_materialize_7 by (simp add: stamp_def)
qed

section \<open>The flag of a load in flight\<close>

lemma fetchData_loading: "m_loading L \<Longrightarrow> fetchData rp resp L = (None, L)"
  by (simp add: fetchData_def)

lemma fetchData_start_loading: "m_loading L \<Longrightarrow> fetchData_start L = L"
  by (simp add: fetchData_start_def)

lemma fetchRemoteData_loading: "m_loading (fetchRemoteData force resp L) = m_loading L"
proof (cases "\<not> isRemoteLayer L \<or> (\<not> hasDynamicData L \<and> hasDataLoaded L \<and> \<not> force) \<or> \<not> isVisible L")
  case True
  then show ?thesis by (simp add: fetchRemoteData_skip)
next
  case False
  then have r: "isRemoteLayer L" "isVisible L" "hasDynamicData L \<or> \<not> hasDataLoaded L \<or> force"
    by blast+
  show ?thesis
    unfolding fetchRemoteData_run [OF r]
    by (simp add: fromGeoJSON_fields clear_eq send_def split: option.splits)
qed

lemma p_trySave_loading: "m_loading L \<Longrightarrow> m_loading (snd (p_trySave url hs fd rp L))"
proof -
  assume l: "m_loading L"
  let ?L2 = "absorb_geojson (members (r_data rp)) (send (ServerPost url hs (Some fd)) L)"
  let ?o = "AList.delete ''_referenceVersion'' (AList.delete ''id''
              (if truthy (map_of (members (r_data rp)) ''geojson'')
               then AList.delete ''geojson'' (members (r_data rp)) else members (r_data rp)))"
  have l2: "m_loading ?L2" using l by (simp add: absorb_geojson_fields send_def)
  have l3: "m_loading (updateOptions ?o ?L2)" using l2 by (rule updateOptions_loading)
  show ?thesis
  proof (cases "r_error rp")
    case True
    then show ?thesis using l by (simp add: p_trySave_error raise_conflict_def send_def)
  next
    case False
    show ?thesis
    proof (cases "r_data rp = JNull")
      case True
      with False show ?thesis using l by (simp add: p_trySave_def send_def)
    next
      case nn: False
      show ?thesis
      proof (cases "r_response rp")
        case None
        have "snd (p_trySave url hs fd rp L) = updateOptions ?o ?L2"
          using False nn None by (simp add: p_trySave_def Let_def)
        then show ?thesis using l3 by simp
      next
        case (Some r)
        show ?thesis
          unfolding p_trySave_success_eq [OF False nn Some]
          using l3 by (simp add: connectToMap_fields backupData_def backupOptions_def
              setReferenceVersion_def)
      qed
    qed
  qed
qed

lemma save_loading: "m_loading L \<Longrightarrow> m_loading (snd (save rp L))"
proof -
  assume l: "m_loading L"
  show ?thesis
  proof (cases "m_isDeleted L \<or> \<not> isLoaded L")
    case True
    then show ?thesis using l by (auto simp: save_def saveDelete_def send_def Let_def)
  next
    case False
    then have nd: "\<not> m_isDeleted L" and il: "isLoaded L" by simp_all
    show ?thesis
    proof (cases "umapGeoJSON L")
      case (Throw e)
      then show ?thesis using nd il l by (simp add: save_def)
    next
      case (Return g)
      obtain c L1 where p: "p_trySave (saveURL L) (save_headers L) (save_formData L g) rp L = (c, L1)"
        by (cases "p_trySave (saveURL L) (save_headers L) (save_formData L g) rp L")
      have "m_loading L1"
        using p_trySave_loading [OF l, of "saveURL L" "save_headers L" "save_formData L g" rp] p
        by simp
      then show ?thesis
        unfolding save_upsert [OF nd il Return] p by (simp split: completion.splits)
    qed
  qed
qed

lemma conflict_retry_loading: "m_loading L \<Longrightarrow> m_loading (snd (conflict_retry rt rp L))"
proof -
  assume l: "m_loading L"
  obtain c L1 where p: "p_trySave (rt_url rt) [] (rt_formData rt) rp L = (c, L1)"
    by (cases "p_trySave (rt_url rt) [] (rt_formData rt) rp L")
  have "m_loading L1"
    using p_trySave_loading [OF l, of "rt_url rt" "[]" "rt_formData rt" rp] p by simp
  then show ?thesis
    unfolding conflict_retry_def p
    by (simp add: set_isDirty_False saveAll_def split: completion.splits)
qed

lemma set_isDirty_loading: "m_loading L \<Longrightarrow> m_loading (set_isDirty status L)"
  by (simp add: set_isDirty_def onDirty_def fetchData_start_def)

lemma p_delete_loading: "m_loading L \<Longrightarrow> m_loading (p_delete L)"
proof -
  assume l: "m_loading L"
  then have "m_loading (set_isDeleted True L)"
    by (simp add: set_isDeleted_def set_isDirty_loading)
  then show ?thesis
    by (simp add: p_delete_def erase_def hide_def clear_eq Let_def)
qed

lemma empty_loading: "m_loading L \<Longrightarrow> m_loading (empty L)"
  by (simp add: empty_def set_isDirty_loading clear_eq)

lemma show_start_loading: "m_loading L \<Longrightarrow> m_loading (show_start L)"
  using show_start_frame [of L] by auto

lemma run_loading: "m_loading L \<Longrightarrow> m_loading (run op L)"
proof (cases op)
  case (AddFeature f)
  assume "m_loading L"
  then show ?thesis unfolding AddFeature by (simp add: addFeature_fields)
next
  case (RemoveFeature f)
  assume "m_loading L"
  then show ?thesis unfolding RemoveFeature by (simp add: removeFeature_def Let_def)
next
  case Clear
  assume "m_loading L"
  then show ?thesis unfolding Clear by (simp add: clear_eq)
next
  case Reindex
  assume "m_loading L"
  then show ?thesis unfolding Reindex by (simp add: reindex_def Let_def)
next
  case (IndexProperty name)
  assume "m_loading L"
  then show ?thesis unfolding IndexProperty by (simp add: indexProperty_def)
next
  case (DeindexProperty name)
  assume "m_loading L"
  then show ?thesis unfolding DeindexProperty by (simp add: deindexProperty_def Let_def)
next
  case (FetchData rp resp)
  assume "m_loading L"
  then show ?thesis unfolding FetchData by (simp add: fetchData_loading)
next
  case (FetchRemoteData force resp)
  assume "m_loading L"
  then show ?thesis unfolding FetchRemoteData by (simp add: fetchRemoteData_loading)
next
  case (Save rp)
  assume "m_loading L"
  then show ?thesis unfolding Save by (simp add: save_loading)
next
  case (ConflictRetry rt rp)
  assume "m_loading L"
  then show ?thesis unfolding ConflictRetry by (simp add: conflict_retry_loading)
next
  case Delete
  assume "m_loading L"
  then show ?thesis unfolding Delete by (simp add: p_delete_loading)
next
  case Empty
  assume "m_loading L"
  then show ?thesis unfolding Empty by (simp add: empty_loading)
next
  case (SetDirty status)
  assume "m_loading L"
  then show ?thesis unfolding SetDirty by (simp add: set_isDirty_loading)
next
  case (Show rp resp)
  assume "m_loading L"
  then show ?thesis unfolding Show by (simp add: show_layer_def fetchData_loading Let_def)
next
  case Hide
  assume "m_loading L"
  then show ?thesis unfolding Hide by (simp add: hide_def)
next
  case Toggle
  assume "m_loading L"
  then show ?thesis unfolding Toggle by (simp add: toggle_def hide_def show_start_loading)
next
  case (UpdateOptions opts)
  assume "m_loading L"
  then show ?thesis unfolding UpdateOptions by (simp add: updateOptions_loading)
qed

lemma run_all_loading: "m_loading L \<Longrightarrow> m_loading (run_all ops L)"
  unfolding run_all_def
proof (induction ops arbitrary: L)
  case Nil
  then show ?case by simp
next
  case (Cons op ops)
  have "m_loading (run op L)" using Cons.prems by (rule run_loading)
  then show ?case using Cons.IH by simp
qed

lemma fetchData_error:
  "createdOnServer L \<Longrightarrow> \<not> m_loading L \<Longrightarrow> r_error rp \<Longrightarrow>
     fetchData rp resp L = (None, send (ServerGet (p_dataUrl L)) (L\<lparr>m_loading := True\<rparr>))"
  by (simp add: fetchData_def Let_def)

text \<open>
  C10. A layer that is on the server and not loading calls \<^verbatim>\<open>fetchData\<close> and the
  read request comes back with an error. The call returns with \<^verbatim>\<open>_loading\<close> still
  set, and nothing resets it: after any sequence of operations on the layer the flag is
  set, and every \<^verbatim>\<open>fetchData\<close> call, awaited or not, returns at once, with the state
  (and so the request log) as it was.
\<close>

theorem C10_failed_load_blocks_loading:
  "createdOnServer L \<and> \<not> m_loading L \<and> r_error rp \<longrightarrow>
     fst (fetchData rp resp L) = None
     \<and> requests (umap (snd (fetchData rp resp L))) = requests (umap L) @ [ServerGet (p_dataUrl L)]
     \<and> m_loading (snd (fetchData rp resp L))
     \<and> (\<forall>ops rp' resp'.
          m_loading (run_all ops (snd (fetchData rp resp L)))
          \<and> fetchData rp' resp' (run_all ops (snd (fetchData rp resp L)))
              = (None, run_all ops (snd (fetchData rp resp L)))
          \<and> fetchData_start (run_all ops (snd (fetchData rp resp L)))
              = run_all ops (snd (fetchData rp resp L)))"
proof (intro impI)
  assume a: "createdOnServer L \<and> \<not> m_loading L \<and> r_error rp"
  then have e: "fetchData rp resp L = (None, send (ServerGet (p_dataUrl L)) (L\<lparr>m_loading := True\<rparr>))"
    using fetchData_error by blast
  have l: "m_loading (snd (fetchData rp resp L))" unfolding e by (simp add: send_def)
  have "\<forall>ops rp' resp'.
          m_loading (run_all ops (snd (fetchData rp resp L)))
          \<and> fetchData rp' resp' (run_all ops (snd (fetchData rp resp L)))
              = (None, run_all ops (snd (fetchData rp resp L)))
          \<and> fetchData_start (run_all ops (snd (fetchData rp resp L)))
              = run_all ops (snd (fetchData rp resp L))"
    using run_all_loading [OF l] by (simp add: fetchData_loading fetchData_start_loading)
  moreover have "fst (fetchData rp resp L) = None" unfolding e by simp
  moreover have "requests (umap (snd (fetchData rp resp L)))
      = requests (umap L) @ [ServerGet (p_dataUrl L)]"
    unfolding e by (simp add: send_def)
  ultimately show "fst (fetchData rp resp L) = None
     \<and> requests (umap (snd (fetchData rp resp L))) = requests (umap L) @ [ServerGet (p_dataUrl L)]
     \<and> m_loading (snd (fetchData rp resp L))
     \<and> (\<forall>ops rp' resp'.
          m_loading (run_all ops (snd (fetchData rp resp L)))
          \<and> fetchData rp' resp' (run_all ops (snd (fetchData rp resp L)))
              = (None, run_all ops (snd (fetchData rp resp L)))
          \<and> fetchData_start (run_all ops (snd (fetchData rp resp L)))
              = run_all ops (snd (fetchData rp resp L)))"
    using l by blast
qed

lemma ex_saved_layer_simps:
  "createdOnServer ex_saved_layer" "\<not> m_loading ex_saved_layer"
  "requests (umap ex_saved_layer) = []" "p_dataUrl ex_saved_layer = Datalayer_view None"
  by (simp_all add: ex_saved_layer_def ex_layer_def ex_umap_def createdOnServer_def p_dataUrl_def
      DEFAULT_OPTIONS_def)

theorem C10_failed_load_blocks_loading_witness:
  "createdOnServer ex_saved_layer \<and> \<not> m_loading ex_saved_layer \<and> r_error ex_reply_error
   \<and> requests (umap (snd (fetchData ex_reply_error None ex_saved_layer)))
       = [ServerGet (Datalayer_view None)]
   \<and> m_loading (snd (fetchData ex_reply_error None ex_saved_layer))
   \<and> m_loading (run_all [Hide, Show ex_reply_ok None, SetDirty True, Save ex_reply_ok]
        (snd (fetchData ex_reply_error None ex_saved_layer)))
   \<and> fetchData ex_reply_ok None
        (run_all [Hide, Show ex_reply_ok None, SetDirty True, Save ex_reply_ok]
          (snd (fetchData ex_reply_error None ex_saved_layer)))
      = (None, run_all [Hide, Show ex_reply_ok None, SetDirty True, Save ex_reply_ok]
          (snd (fetchData ex_reply_error None ex_saved_layer)))"
proof -
  have h: "createdOnServer ex_saved_layer \<and> \<not> m_loading ex_saved_layer \<and> r_error ex_reply_error"
    using ex_saved_layer_simps by (simp add: ex_reply_error_def)
  note t = C10_failed_load_blocks_loading [where L = ex_saved_layer and rp = ex_reply_error
      and resp = None, THEN mp, OF h]
  note q = t [THEN conjunct2, THEN conjunct2, THEN conjunct2, rule_format,
      of "[Hide, Show ex_reply_ok None, SetDirty True, Save ex_reply_ok]" ex_reply_ok None]
  from t q h show ?thesis using ex_saved_layer_simps(3,4) by simp
qed

end
